theory Spec2Isabelle
  imports Main "HOL-Library.Sublist"
begin

section \<open>JavaScript values\<close>

text \<open>
  The handlers of the repository read a parsed JSON request body, build three outbound
  HTTP requests with template strings and \<^verbatim>\<open>JSON.stringify\<close>, and answer with a
  status code and a JSON body. The values they handle are modelled by one datatype:
  the JSON values plus \<^verbatim>\<open>undefined\<close>. A number is given by its text
  \<^verbatim>\<open>String(n)\<close> (\<^verbatim>\<open>"0"\<close> for both zeros), which together with its truth value is
  all the code reads of a number. Text is a \<open>string\<close> of UTF-8 bytes, which the code
  only concatenates, compares and tests for emptiness; where it measures a text in UTF-16
  code units (the configuration report), the units are counted from the bytes. An object
  is the association list of its own properties, looked up with \<open>map_of\<close>.
\<close>

datatype jsval =
    Undefined
  | Null
  | Bool bool
  | Num string
  | Str string
  | Arr "jsval list"
  | Obj "(string \<times> jsval) list"

text \<open>\<^verbatim>\<open>Boolean(v)\<close>, the test behind \<^verbatim>\<open>!v\<close>, \<^verbatim>\<open>v ? a : b\<close>, \<^verbatim>\<open>v || w\<close> and
  \<^verbatim>\<open>.filter(Boolean)\<close>.\<close>

fun truthy :: "jsval \<Rightarrow> bool" where
  "truthy Undefined = False"
| "truthy Null = False"
| "truthy (Bool b) = b"
| "truthy (Num n) = (n \<noteq> ''0'' \<and> n \<noteq> ''NaN'')"
| "truthy (Str s) = (s \<noteq> [])"
| "truthy (Arr xs) = True"
| "truthy (Obj kvs) = True"

text \<open>\<^verbatim>\<open>a || b\<close>\<close>

definition js_or :: "jsval \<Rightarrow> jsval \<Rightarrow> jsval" where
  "js_or a b = (if truthy a then a else b)"

definition nl :: string where
  "nl = [CHR 0x0A]"

definition dq :: string where
  "dq = [CHR 0x22]"

text \<open>The character of a digit below ten.\<close>

definition digit_char :: "nat \<Rightarrow> char" where
  "digit_char n = ''0123456789'' ! n"

text \<open>The decimal numeral of a natural number, as a template string prints
  \<^verbatim>\<open>val.length\<close> or \<^verbatim>\<open>resp.status\<close>.\<close>

fun show_nat :: "nat \<Rightarrow> string" where
  "show_nat n =
     (if n < 10 then [digit_char n] else show_nat (n div 10) @ [digit_char (n mod 10)])"

declare show_nat.simps [simp del]

text \<open>\<^verbatim>\<open>xs.join(sep)\<close> on strings.\<close>

fun join :: "string \<Rightarrow> string list \<Rightarrow> string" where
  "join sep [] = []"
| "join sep [x] = x"
| "join sep (x # y # ys) = x @ sep @ join sep (y # ys)"

text \<open>An error object: its \<^verbatim>\<open>name\<close> and its \<^verbatim>\<open>message\<close>.\<close>

datatype js_error = JsError (err_name: string) (err_message: string)

text \<open>\<^verbatim>\<open>new Error(msg)\<close>\<close>

definition Error :: "string \<Rightarrow> js_error" where
  "Error msg = JsError ''Error'' msg"

text \<open>\<^verbatim>\<open>String(err)\<close>, that is \<^verbatim>\<open>Error.prototype.toString\<close>.\<close>

definition error_to_string :: "js_error \<Rightarrow> string" where
  "error_to_string e =
     (if err_name e = [] then err_message e
      else if err_message e = [] then err_name e
      else err_name e @ '': '' @ err_message e)"

text \<open>
  \<^verbatim>\<open>String(v)\<close>, the conversion a template string applies to \<^verbatim>\<open>${v}\<close>, can throw.
  A parsed JSON object inherits \<^verbatim>\<open>Object.prototype.toString\<close> unless it has an own
  property named \<^verbatim>\<open>toString\<close>; that property holds a JSON value, which is not
  callable, and \<^verbatim>\<open>valueOf\<close> returns no primitive, so the conversion throws a
  \<^verbatim>\<open>TypeError\<close>. An array converts each of its elements. \<open>printable\<close> says that
  the conversion returns, \<open>string_of\<close> is what it returns then.
\<close>

fun printable :: "jsval \<Rightarrow> bool" where
  "printable (Arr xs) = list_all printable xs"
| "printable (Obj kvs) = (map_of kvs ''toString'' = None)"
| "printable v = True"

text \<open>An array prints its elements separated by commas, \<^verbatim>\<open>null\<close> and
  \<^verbatim>\<open>undefined\<close> elements as the empty string.\<close>

fun string_of :: "jsval \<Rightarrow> string" where
  "string_of Undefined = ''undefined''"
| "string_of Null = ''null''"
| "string_of (Bool b) = (if b then ''true'' else ''false'')"
| "string_of (Num n) = n"
| "string_of (Str s) = s"
| "string_of (Arr xs) =
     join '','' (map (\<lambda>x. if x = Undefined \<or> x = Null then [] else string_of x) xs)"
| "string_of (Obj kvs) = ''[object Object]''"

definition cannot_convert :: js_error where
  "cannot_convert = JsError ''TypeError'' ''Cannot convert object to primitive value''"

definition to_string :: "jsval \<Rightarrow> js_error + string" where
  "to_string v = (if printable v then Inr (string_of v) else Inl cannot_convert)"

text \<open>\<^verbatim>\<open>JSON.stringify(v)\<close> as the JSON document it denotes (the tree, not its text):
  a property whose value is \<^verbatim>\<open>undefined\<close> is left out of an object, and an
  \<^verbatim>\<open>undefined\<close> array element becomes \<^verbatim>\<open>null\<close>. It does not throw on parsed JSON
  (no cycle, no callable \<^verbatim>\<open>toJSON\<close>).\<close>

fun JSON_stringify :: "jsval \<Rightarrow> jsval" where
  "JSON_stringify (Arr xs) =
     Arr (map (\<lambda>x. if x = Undefined then Null else JSON_stringify x) xs)"
| "JSON_stringify (Obj kvs) =
     Obj (map (\<lambda>(k, v). (k, JSON_stringify v)) (filter (\<lambda>(k, v). v \<noteq> Undefined) kvs))"
| "JSON_stringify v = v"

text \<open>\<^verbatim>\<open>v == null\<close>: the values whose properties cannot be read.\<close>

definition nullish :: "jsval \<Rightarrow> bool" where
  "nullish v = (v = Undefined \<or> v = Null)"

text \<open>The property \<^verbatim>\<open>v.k\<close> of a value that is not nullish, for the property names the
  source reads (\<^verbatim>\<open>name\<close>, \<^verbatim>\<open>phone\<close>, \<^verbatim>\<open>address\<close>, \<^verbatim>\<open>service\<close>,
  \<^verbatim>\<open>urgency\<close>, \<^verbatim>\<open>details\<close>, \<^verbatim>\<open>success\<close>, \<^verbatim>\<open>error\<close>, \<^verbatim>\<open>records\<close>,
  \<^verbatim>\<open>id\<close>), none of which is a built-in property of a string, a number, a boolean or an
  array.\<close>

fun property :: "jsval \<Rightarrow> string \<Rightarrow> jsval" where
  "property (Obj kvs) k = (case map_of kvs k of None \<Rightarrow> Undefined | Some v \<Rightarrow> v)"
| "property v k = Undefined"

text \<open>Reading \<^verbatim>\<open>v.k\<close> of any value: a \<^verbatim>\<open>TypeError\<close> on \<^verbatim>\<open>null\<close> and
  \<^verbatim>\<open>undefined\<close>.\<close>

definition get_member :: "jsval \<Rightarrow> string \<Rightarrow> js_error + jsval" where
  "get_member v k =
     (if nullish v then
        Inl (JsError ''TypeError''
          (''Cannot read properties of '' @ string_of v @ '' (reading '' @ [CHR 0x27] @ k
             @ [CHR 0x27] @ '')''))
      else Inr (property v k))"

subsection \<open>UTF-16 code units\<close>

text \<open>
  \<^verbatim>\<open>val.length\<close> and \<^verbatim>\<open>val.slice(0, 4)\<close> count UTF-16 code units. A character
  of one, two or three UTF-8 bytes is one unit, a character of four bytes is two (a
  surrogate pair), and a continuation byte adds nothing.
\<close>

definition continuation :: "char \<Rightarrow> bool" where
  "continuation c = (0x80 \<le> (of_char c :: nat) \<and> (of_char c :: nat) < 0xC0)"

definition units :: "char \<Rightarrow> nat" where
  "units c =
     (if (of_char c :: nat) < 0x80 then 1
      else if (of_char c :: nat) < 0xC0 then 0
      else if (of_char c :: nat) < 0xF0 then 1
      else 2)"

definition utf16_length :: "string \<Rightarrow> nat" where
  "utf16_length s = sum_list (map units s)"

text \<open>When a slice ends between the two units of a pair, what remains of the character is
  its high surrogate, written here in the three-byte form of its code.\<close>

fun high_surrogate :: "string \<Rightarrow> string" where
  "high_surrogate [b0, b1, b2, b3] =
     (let cp = (of_char b0 mod 8) * 262144 + (of_char b1 mod 64) * 4096
               + (of_char b2 mod 64) * 64 + (of_char b3 mod 64 :: nat);
          hs = 0xD800 + (cp - 0x10000) div 1024
      in [char_of (0xE0 + hs div 4096), char_of (0x80 + (hs div 64) mod 64),
          char_of (0x80 + hs mod 64)])"
| "high_surrogate s = s"

text \<open>\<^verbatim>\<open>s.slice(0, n)\<close>: the first \<open>n\<close> code units.\<close>

fun utf16_take :: "nat \<Rightarrow> string \<Rightarrow> string" where
  "utf16_take n [] = []"
| "utf16_take n (c # cs) =
     (if continuation c then c # utf16_take n cs
      else if n = 0 then []
      else if units c \<le> n then c # utf16_take (n - units c) cs
      else high_surrogate (c # take 3 cs))"

section \<open>Requests, responses and the outside world\<close>

text \<open>The part of the incoming request the handlers read: \<^verbatim>\<open>req.method\<close> and
  \<^verbatim>\<open>req.body\<close> (\<^verbatim>\<open>undefined\<close> when the request carries no parsed body).\<close>

record request =
  req_method :: string
  body :: jsval

text \<open>The response object \<^verbatim>\<open>res\<close>: the status code, the headers set by
  \<^verbatim>\<open>res.setHeader\<close>, and what was sent (\<^verbatim>\<open>res.json(v)\<close> or \<^verbatim>\<open>res.end()\<close>).\<close>

datatype res_body = NoBody | Json jsval

record response =
  status :: nat
  headers :: "string \<rightharpoonup> string"
  sent :: res_body

definition res0 :: response where
  "res0 = \<lparr>status = 200, headers = Map.empty, sent = NoBody\<rparr>"

definition setHeader :: "string \<Rightarrow> string \<Rightarrow> response \<Rightarrow> response" where
  "setHeader k v res = res\<lparr>headers := (headers res)(k \<mapsto> v)\<rparr>"

definition res_status :: "nat \<Rightarrow> response \<Rightarrow> response" where
  "res_status code res = res\<lparr>status := code\<rparr>"

definition res_json :: "jsval \<Rightarrow> response \<Rightarrow> response" where
  "res_json v res = res\<lparr>sent := Json v\<rparr>"

definition res_end :: "response \<Rightarrow> response" where
  "res_end res = res\<lparr>sent := NoBody\<rparr>"

text \<open>One call of \<^verbatim>\<open>fetch(url, {method, headers, body})\<close> and what comes back: the
  promise rejects, or it resolves to a response whose \<^verbatim>\<open>ok\<close>, \<^verbatim>\<open>status\<close>,
  \<^verbatim>\<open>text()\<close> and \<^verbatim>\<open>json()\<close> the callers read (the last two may reject in turn).\<close>

record fetch_request =
  url :: string
  fetch_method :: string
  fetch_headers :: "(string \<times> string) list"
  fetch_body :: jsval

record http_response =
  resp_ok :: bool
  resp_status :: nat
  resp_text :: "js_error + string"
  resp_json :: "js_error + jsval"

datatype fetch_outcome = FetchRejected js_error | FetchResolved http_response

datatype collaborator = Airtable | SMS | Email

text \<open>Everything outside the handler: the process configuration \<^verbatim>\<open>process.env\<close>, the
  network behind \<^verbatim>\<open>fetch\<close>, the clock, as the text that
  \<^verbatim>\<open>new Date().toLocaleString('en-US', ...)\<close> returns, and the time each of the
  three operations takes to settle, which decides the order in which concurrent
  operations settle (in the order of the calls when the times are equal). Every order is
  the order of some world.\<close>

record world =
  process_env :: "string \<rightharpoonup> string"
  fetch :: "fetch_request \<Rightarrow> fetch_outcome"
  timestamp :: string
  latency :: "collaborator \<Rightarrow> nat"

text \<open>\<^verbatim>\<open>process.env.K\<close>\<close>

definition env :: "(string \<rightharpoonup> string) \<Rightarrow> string \<Rightarrow> jsval" where
  "env e k = (case e k of None \<Rightarrow> Undefined | Some s \<Rightarrow> Str s)"

text \<open>The object \<^verbatim>\<open>{ name, phone, address, service, urgency, details }\<close> handed to each
  collaborator.\<close>

record quote_data =
  name :: jsval
  phone :: jsval
  address :: jsval
  service :: jsval
  urgency :: jsval
  details :: jsval

text \<open>\<^verbatim>\<open>const { name, phone, address, service, urgency, details } = req.body\<close>: a
  \<^verbatim>\<open>TypeError\<close> when the body is \<^verbatim>\<open>null\<close> or \<^verbatim>\<open>undefined\<close>.\<close>

definition destructure :: "jsval \<Rightarrow> js_error + quote_data" where
  "destructure b =
     (if nullish b then
        Inl (JsError ''TypeError''
          (''Cannot destructure property '' @ [CHR 0x27] @ ''name'' @ [CHR 0x27] @ '' of ''
             @ [CHR 0x27] @ ''req.body'' @ [CHR 0x27] @ '' as it is '' @ string_of b @ ''.''))
      else
        Inr \<lparr>name = property b ''name'', phone = property b ''phone'',
             address = property b ''address'', service = property b ''service'',
             urgency = property b ''urgency'', details = property b ''details''\<rparr>)"

text \<open>
  The observable actions of a handler, in the order in which they happen: a collaborator,
  called with the form data, sends its request with \<^verbatim>\<open>fetch\<close>; the promise of a
  collaborator settles (\<open>Inl\<close> rejected with a reason, \<open>Inr\<close> fulfilled with a
  value); the handler sends its response. Console output is not modelled.
\<close>

datatype event =
    Called collaborator quote_data fetch_request
  | Settled collaborator "js_error + jsval"
  | Responded response

text \<open>
  What one call of a collaborator amounts to: the request it sent, if it got as far as
  \<^verbatim>\<open>fetch\<close>, and how its promise settled. The three collaborators are
  \<^verbatim>\<open>async\<close> functions: an exception thrown before the \<^verbatim>\<open>fetch\<close> is a
  rejection, and no request is sent.
\<close>

type_synonym attempt = "fetch_request option \<times> (js_error + jsval)"

definition called :: "collaborator \<Rightarrow> quote_data \<Rightarrow> attempt \<Rightarrow> event list" where
  "called c data a = (case fst a of None \<Rightarrow> [] | Some rq \<Rightarrow> [Called c data rq])"

text \<open>\<^verbatim>\<open>await Promise.allSettled([...])\<close>: the handler goes on when every promise of the
  array has settled, in whatever order they do.\<close>

definition allSettled :: "world \<Rightarrow> (collaborator \<times> attempt) list \<Rightarrow> event list" where
  "allSettled w ops =
     map (\<lambda>(c, a). Settled c (snd a)) (sort_key (\<lambda>(c, a). latency w c) ops)"

text \<open>The values a message interpolates: the three required fields and the optional
  fields that are truthy. \<^verbatim>\<open>sendSMS\<close> and \<^verbatim>\<open>sendEmail\<close> convert exactly these to
  text; each conversion that fails throws the same \<^verbatim>\<open>TypeError\<close>.\<close>

definition interpolated :: "quote_data \<Rightarrow> jsval list" where
  "interpolated data =
     name data # phone data # address data
       # filter truthy [service data, urgency data, details data]"

section \<open>\<^verbatim>\<open>src/api/quote.js\<close>\<close>

subsection \<open>createAirtableRecord\<close>

definition airtable_fields :: "quote_data \<Rightarrow> (string \<times> jsval) list" where
  "airtable_fields data =
     [(''Name'', name data),
      (''Phone'', phone data),
      (''Address'', address data),
      (''Service'', js_or (service data) Undefined),
      (''Urgency'', js_or (urgency data) Undefined),
      (''Details'', js_or (details data) (Str [])),
      (''Status'', Str ''New'')]"

definition airtable_url :: "(string \<rightharpoonup> string) \<Rightarrow> string" where
  "airtable_url e =
     ''https://api.airtable.com/v0/'' @ string_of (env e ''AIRTABLE_BASE_ID'') @ ''/''
       @ string_of (env e ''AIRTABLE_TABLE_ID'')"

definition airtable_request ::
    "(string \<rightharpoonup> string) \<Rightarrow> (string \<times> jsval) list \<Rightarrow> fetch_request" where
  "airtable_request e flds =
     \<lparr>url = airtable_url e,
      fetch_method = ''POST'',
      fetch_headers =
        [(''Authorization'', ''Bearer '' @ string_of (env e ''AIRTABLE_API_KEY'')),
         (''Content-Type'', ''application/json'')],
      fetch_body = JSON_stringify (Obj [(''records'', Arr [Obj [(''fields'', Obj flds)]])])\<rparr>"

text \<open>What follows the \<^verbatim>\<open>fetch\<close> in \<^verbatim>\<open>createAirtableRecord\<close> and in
  \<^verbatim>\<open>sendEmail\<close>: throw on a response that is not ok, else return
  \<^verbatim>\<open>resp.json()\<close>. The label is the service name in the error message.\<close>

definition json_or_throw :: "string \<Rightarrow> fetch_outcome \<Rightarrow> js_error + jsval" where
  "json_or_throw label out =
     (case out of
        FetchRejected e \<Rightarrow> Inl e
      | FetchResolved resp \<Rightarrow>
          if \<not> resp_ok resp then
            (case resp_text resp of
               Inl e \<Rightarrow> Inl e
             | Inr err \<Rightarrow> Inl (Error (label @ '' '' @ show_nat (resp_status resp) @ '': '' @ err)))
          else resp_json resp)"

text \<open>Nothing can throw before the \<^verbatim>\<open>fetch\<close> here: the template strings interpolate
  configuration texts only.\<close>

definition createAirtableRecord :: "world \<Rightarrow> quote_data \<Rightarrow> attempt" where
  "createAirtableRecord w data =
     (let req = airtable_request (process_env w) (airtable_fields data)
      in (Some req, json_or_throw ''Airtable'' (fetch w req)))"

subsection \<open>sendSMS\<close>

definition herb :: string where
  "herb = [CHR 0xF0, CHR 0x9F, CHR 0x8C, CHR 0xBF]"

text \<open>The array of lines after \<^verbatim>\<open>.filter(Boolean)\<close>, which drops the \<^verbatim>\<open>null\<close>
  entries of absent optional fields and the empty second line. The first line is the
  heading, which differs between the files.\<close>

definition sms_lines :: "string \<Rightarrow> quote_data \<Rightarrow> jsval list" where
  "sms_lines heading data =
     filter truthy
       [Str heading,
        Str [],
        Str (''Name: '' @ string_of (name data)),
        Str (''Phone: '' @ string_of (phone data)),
        Str (''Address: '' @ string_of (address data)),
        if truthy (service data) then Str (''Service: '' @ string_of (service data)) else Null,
        if truthy (urgency data) then Str (''Urgency: '' @ string_of (urgency data)) else Null,
        if truthy (details data) then Str (''Details: '' @ string_of (details data)) else Null]"

text \<open>\<^verbatim>\<open>.join('\n')\<close> on an array of values.\<close>

definition array_join :: "string \<Rightarrow> jsval list \<Rightarrow> string" where
  "array_join sep xs =
     join sep (map (\<lambda>x. if x = Undefined \<or> x = Null then [] else string_of x) xs)"

text \<open>The \<^verbatim>\<open>message\<close>, or the \<^verbatim>\<open>TypeError\<close> of an interpolation.\<close>

definition sms_message :: "string \<Rightarrow> quote_data \<Rightarrow> js_error + string" where
  "sms_message heading data =
     (if list_all printable (interpolated data)
      then Inr (array_join nl (sms_lines heading data))
      else Inl cannot_convert)"

definition sms_request :: "(string \<rightharpoonup> string) \<Rightarrow> string \<Rightarrow> fetch_request" where
  "sms_request e message =
     \<lparr>url = ''https://textbelt.com/text'',
      fetch_method = ''POST'',
      fetch_headers = [(''Content-Type'', ''application/json'')],
      fetch_body = JSON_stringify (Obj
        [(''phone'', env e ''NOTIFY_PHONE''),
         (''message'', Str message),
         (''key'', env e ''TEXTBELT_API_KEY'')])\<rparr>"

text \<open>What follows the \<^verbatim>\<open>fetch\<close> in \<^verbatim>\<open>sendSMS\<close>: a response that is ok but
  whose JSON has a falsy \<^verbatim>\<open>success\<close> is a failure too.\<close>

definition sms_result :: "fetch_outcome \<Rightarrow> js_error + jsval" where
  "sms_result out =
     (case out of
        FetchRejected e \<Rightarrow> Inl e
      | FetchResolved resp \<Rightarrow>
          if \<not> resp_ok resp then
            (case resp_text resp of
               Inl e \<Rightarrow> Inl e
             | Inr err \<Rightarrow> Inl (Error (''Textbelt '' @ show_nat (resp_status resp) @ '': '' @ err)))
          else
            (case resp_json resp of
               Inl e \<Rightarrow> Inl e
             | Inr result \<Rightarrow>
                 (case get_member result ''success'' of
                    Inl e \<Rightarrow> Inl e
                  | Inr success \<Rightarrow>
                      if \<not> truthy success then
                        (case to_string (property result ''error'') of
                           Inl e \<Rightarrow> Inl e
                         | Inr err \<Rightarrow> Inl (Error (''Textbelt failed: '' @ err)))
                      else Inr result)))"

definition sms_heading :: string where
  "sms_heading = herb @ '' New WeMow760 Quote''"

definition sendSMS :: "world \<Rightarrow> quote_data \<Rightarrow> attempt" where
  "sendSMS w data =
     (case sms_message sms_heading data of
        Inl e \<Rightarrow> (None, Inl e)
      | Inr message \<Rightarrow>
          let req = sms_request (process_env w) message
          in (Some req, sms_result (fetch w req)))"

subsection \<open>sendEmail\<close>

text \<open>The literal pieces of the HTML template, between its interpolations.\<close>

definition html_head :: string where
  "html_head =
     nl @ ''    <div style='' @ dq
     @ ''font-family: -apple-system, sans-serif; max-width: 500px;'' @ dq @ ''>'' @ nl
     @ ''      <h2 style='' @ dq @ ''color: #00BF66; margin-bottom: 4px;'' @ dq
     @ ''>New Quote Request</h2>'' @ nl @ ''      <p style='' @ dq
     @ ''color: #888; margin-top: 0; font-size: 14px;'' @ dq @ ''>''"

definition html_name_row :: string where
  "html_name_row =
     ''</p>'' @ nl @ ''      <table style='' @ dq @ ''width: 100%; border-collapse: collapse;''
     @ dq @ ''>'' @ nl @ ''        <tr>'' @ nl @ ''          <td style='' @ dq
     @ ''padding: 10px 0; border-bottom: 1px solid #eee; font-weight: 600; width: 100px;'' @ dq
     @ ''>Name</td>'' @ nl @ ''          <td style='' @ dq
     @ ''padding: 10px 0; border-bottom: 1px solid #eee;'' @ dq @ ''>''"

definition html_phone_row :: string where
  "html_phone_row =
     ''</td>'' @ nl @ ''        </tr>'' @ nl @ ''        <tr>'' @ nl @ ''          <td style=''
     @ dq @ ''padding: 10px 0; border-bottom: 1px solid #eee; font-weight: 600;'' @ dq
     @ ''>Phone</td>'' @ nl @ ''          <td style='' @ dq
     @ ''padding: 10px 0; border-bottom: 1px solid #eee;'' @ dq @ ''>'' @ nl
     @ ''            <a href='' @ dq @ ''tel:''"

definition html_phone_mid :: string where
  "html_phone_mid =
     dq @ '' style='' @ dq @ ''color: #00BF66;'' @ dq @ ''>''"

definition html_address_row :: string where
  "html_address_row =
     ''</a>'' @ nl @ ''          </td>'' @ nl @ ''        </tr>'' @ nl @ ''        <tr>'' @ nl
     @ ''          <td style='' @ dq
     @ ''padding: 10px 0; border-bottom: 1px solid #eee; font-weight: 600;'' @ dq
     @ ''>Address</td>'' @ nl @ ''          <td style='' @ dq
     @ ''padding: 10px 0; border-bottom: 1px solid #eee;'' @ dq @ ''>''"

definition html_address_end :: string where
  "html_address_end =
     ''</td>'' @ nl @ ''        </tr>'' @ nl @ ''        ''"

definition html_service_row_1 :: string where
  "html_service_row_1 =
     ''<tr>'' @ nl @ ''          <td style='' @ dq
     @ ''padding: 10px 0; border-bottom: 1px solid #eee; font-weight: 600;'' @ dq
     @ ''>Service</td>'' @ nl @ ''          <td style='' @ dq
     @ ''padding: 10px 0; border-bottom: 1px solid #eee;'' @ dq @ ''>''"

definition html_service_row_2 :: string where
  "html_service_row_2 =
     ''</td>'' @ nl @ ''        </tr>''"

definition html_gap :: string where
  "html_gap =
     nl @ ''        ''"

definition html_urgency_row_1 :: string where
  "html_urgency_row_1 =
     ''<tr>'' @ nl @ ''          <td style='' @ dq
     @ ''padding: 10px 0; border-bottom: 1px solid #eee; font-weight: 600;'' @ dq
     @ ''>Urgency</td>'' @ nl @ ''          <td style='' @ dq
     @ ''padding: 10px 0; border-bottom: 1px solid #eee;'' @ dq @ ''>''"

definition html_urgency_row_2 :: string where
  "html_urgency_row_2 =
     ''</td>'' @ nl @ ''        </tr>''"

definition html_details_row_1 :: string where
  "html_details_row_1 =
     ''<tr>'' @ nl @ ''          <td style='' @ dq
     @ ''padding: 10px 0; font-weight: 600; vertical-align: top;'' @ dq @ ''>Details</td>'' @ nl
     @ ''          <td style='' @ dq @ ''padding: 10px 0;'' @ dq @ ''>''"

definition html_details_row_2 :: string where
  "html_details_row_2 =
     ''</td>'' @ nl @ ''        </tr>''"

definition html_tail :: string where
  "html_tail =
     nl @ ''      </table>'' @ nl @ ''    </div>'' @ nl @ ''  ''"

text \<open>The \<^verbatim>\<open>html\<close>, or the \<^verbatim>\<open>TypeError\<close> of an interpolation.\<close>

definition email_html :: "string \<Rightarrow> quote_data \<Rightarrow> js_error + string" where
  "email_html ts data =
     (if list_all printable (interpolated data) then
        Inr (html_head @ ts
          @ html_name_row @ string_of (name data)
          @ html_phone_row @ string_of (phone data) @ html_phone_mid @ string_of (phone data)
          @ html_address_row @ string_of (address data)
          @ html_address_end
          @ (if truthy (service data)
             then html_service_row_1 @ string_of (service data) @ html_service_row_2 else [])
          @ html_gap
          @ (if truthy (urgency data)
             then html_urgency_row_1 @ string_of (urgency data) @ html_urgency_row_2 else [])
          @ html_gap
          @ (if truthy (details data)
             then html_details_row_1 @ string_of (details data) @ html_details_row_2 else [])
          @ html_tail)
      else Inl cannot_convert)"

definition em_dash :: string where
  "em_dash = [CHR 0xE2, CHR 0x80, CHR 0x94]"

text \<open>The \<^verbatim>\<open>subject\<close> interpolates the name and, when truthy, the service.\<close>

definition email_subject :: "string \<Rightarrow> quote_data \<Rightarrow> js_error + string" where
  "email_subject title data =
     (if printable (name data) \<and> (if truthy (service data) then printable (service data) else True)
      then
        Inr (title @ '' '' @ em_dash @ '' '' @ string_of (name data)
          @ (if truthy (service data) then '' ('' @ string_of (service data) @ '')'' else []))
      else Inl cannot_convert)"

definition email_request ::
    "(string \<rightharpoonup> string) \<Rightarrow> string \<Rightarrow> string \<Rightarrow> fetch_request" where
  "email_request e subject html =
     \<lparr>url = ''https://api.resend.com/emails'',
      fetch_method = ''POST'',
      fetch_headers =
        [(''Authorization'', ''Bearer '' @ string_of (env e ''RESEND_API_KEY'')),
         (''Content-Type'', ''application/json'')],
      fetch_body = JSON_stringify (Obj
        [(''from'', Str ''WeMow760 <notifications@wemow760.com>''),
         (''to'', Arr [env e ''NOTIFY_EMAIL'']),
         (''subject'', Str subject),
         (''html'', Str html)])\<rparr>"

definition sendEmail :: "world \<Rightarrow> quote_data \<Rightarrow> attempt" where
  "sendEmail w data =
     (case email_html (timestamp w) data of
        Inl e \<Rightarrow> (None, Inl e)
      | Inr html \<Rightarrow>
          (case email_subject ''New Quote'' data of
             Inl e \<Rightarrow> (None, Inl e)
           | Inr subject \<Rightarrow>
               let req = email_request (process_env w) subject html
               in (Some req, json_or_throw ''Resend'' (fetch w req))))"

subsection \<open>handler\<close>

definition cors :: "response \<Rightarrow> response" where
  "cors res =
     setHeader ''Access-Control-Allow-Headers'' ''Content-Type''
       (setHeader ''Access-Control-Allow-Methods'' ''POST''
         (setHeader ''Access-Control-Allow-Origin'' ''*'' res))"

definition method_not_allowed :: "event list" where
  "method_not_allowed =
     [Responded (res_json (Obj [(''error'', Str ''Method not allowed'')]) (res_status 405 res0))]"

definition bad_request :: "response \<Rightarrow> event list" where
  "bad_request res =
     [Responded (res_json (Obj [(''error'', Str ''Name, phone, and address are required.'')])
        (res_status 400 res))]"

definition server_error :: "response \<Rightarrow> event list" where
  "server_error res =
     [Responded
        (res_json (Obj [(''error'', Str ''Something went wrong. Please call us instead.'')])
           (res_status 500 res))]"

text \<open>The handler of \<^verbatim>\<open>src/api/quote.js\<close>. The three collaborators are called one
  after the other, each running up to its \<^verbatim>\<open>fetch\<close>; then the handler waits for the
  three promises. After validation nothing can throw into the outer \<^verbatim>\<open>catch\<close>: the
  failures of the collaborators are rejections, and \<^verbatim>\<open>Promise.allSettled\<close> never
  rejects. The \<^verbatim>\<open>errors\<close> array only feeds \<^verbatim>\<open>console.warn\<close>; the response does
  not depend on it.\<close>

definition quote_js_handler :: "world \<Rightarrow> request \<Rightarrow> event list" where
  "quote_js_handler w req =
     (if req_method req \<noteq> ''POST'' then method_not_allowed
      else
        let res = cors res0 in
        case destructure (body req) of
          Inl err \<Rightarrow> server_error res
        | Inr data \<Rightarrow>
            if \<not> truthy (name data) \<or> \<not> truthy (phone data) \<or> \<not> truthy (address data)
            then bad_request res
            else
              let airtable = createAirtableRecord w data;
                  sms = sendSMS w data;
                  email = sendEmail w data
              in called Airtable data airtable @ called SMS data sms @ called Email data email
                 @ allSettled w [(Airtable, airtable), (SMS, sms), (Email, email)]
                 @ [Responded (res_json (Obj [(''success'', Bool True)]) (res_status 200 res))])"

section \<open>\<^verbatim>\<open>src/unnamed/part_000\<close>\<close>

text \<open>\<^verbatim>\<open>sendSMS\<close> and \<^verbatim>\<open>sendEmail\<close> of this file are those of
  \<^verbatim>\<open>src/api/quote.js\<close>. \<^verbatim>\<open>createAirtableRecord\<close> builds the field set in another
  way: the optional \<^verbatim>\<open>Service\<close> and \<^verbatim>\<open>Urgency\<close> are assigned after the others,
  and only when truthy.\<close>

definition part_000_airtable_fields :: "quote_data \<Rightarrow> (string \<times> jsval) list" where
  "part_000_airtable_fields data =
     (let flds0 =
            [(''Name'', name data),
             (''Phone'', phone data),
             (''Address'', address data),
             (''Details'', js_or (details data) (Str [])),
             (''Status'', Str ''New'')];
          flds1 = (if truthy (service data) then flds0 @ [(''Service'', service data)] else flds0);
          flds2 = (if truthy (urgency data) then flds1 @ [(''Urgency'', urgency data)] else flds1)
      in flds2)"

definition part_000_createAirtableRecord :: "world \<Rightarrow> quote_data \<Rightarrow> attempt" where
  "part_000_createAirtableRecord w data =
     (let req = airtable_request (process_env w) (part_000_airtable_fields data)
      in (Some req, json_or_throw ''Airtable'' (fetch w req)))"

text \<open>One entry of the \<^verbatim>\<open>summary\<close>: \<^verbatim>\<open>'OK'\<close> for a fulfilled promise, else
  \<^verbatim>\<open>`FAIL: ${reason}`\<close>, where the reason is an error object.\<close>

definition summary_entry :: "js_error + jsval \<Rightarrow> jsval" where
  "summary_entry settled =
     (case settled of
        Inr v \<Rightarrow> Str ''OK''
      | Inl reason \<Rightarrow> Str (''FAIL: '' @ error_to_string reason))"

definition preflight :: "event list" where
  "preflight = [Responded (res_end (res_status 200 (cors res0)))]"

text \<open>The handler of \<^verbatim>\<open>src/unnamed/part_000\<close>: it answers a preflight, and echoes how
  each collaborator settled.\<close>

definition part_000_handler :: "world \<Rightarrow> request \<Rightarrow> event list" where
  "part_000_handler w req =
     (if req_method req = ''OPTIONS'' then preflight
      else if req_method req \<noteq> ''POST'' then method_not_allowed
      else
        let res = cors res0 in
        case destructure (body req) of
          Inl err \<Rightarrow> server_error res
        | Inr data \<Rightarrow>
            if \<not> truthy (name data) \<or> \<not> truthy (phone data) \<or> \<not> truthy (address data)
            then bad_request res
            else
              let airtable = part_000_createAirtableRecord w data;
                  sms = sendSMS w data;
                  email = sendEmail w data;
                  summary = Obj
                    [(''airtable'', summary_entry (snd airtable)),
                     (''sms'', summary_entry (snd sms)),
                     (''email'', summary_entry (snd email))]
              in called Airtable data airtable @ called SMS data sms @ called Email data email
                 @ allSettled w [(Airtable, airtable), (SMS, sms), (Email, email)]
                 @ [Responded (res_json (Obj [(''success'', Bool True), (''_debug'', summary)])
                      (res_status 200 res))])"

section \<open>\<^verbatim>\<open>src/api/debug.js\<close>\<close>

subsection \<open>The configuration report\<close>

definition vars :: "string list" where
  "vars =
     [''AIRTABLE_API_KEY'',
      ''AIRTABLE_BASE_ID'',
      ''AIRTABLE_TABLE_ID'',
      ''TEXTBELT_API_KEY'',
      ''NOTIFY_PHONE'',
      ''NOTIFY_EMAIL'',
      ''RESEND_API_KEY'']"

text \<open>\<^verbatim>\<open>val ? `SET (${val.length} chars, starts with "${val.slice(0, 4)}...")` : 'MISSING'\<close>
  for \<^verbatim>\<open>val = process.env[v]\<close>, a string or \<^verbatim>\<open>undefined\<close>.\<close>

definition var_status :: "string option \<Rightarrow> string" where
  "var_status val =
     (case val of
        None \<Rightarrow> ''MISSING''
      | Some s \<Rightarrow>
          if s \<noteq> [] then
            ''SET ('' @ show_nat (utf16_length s) @ '' chars, starts with '' @ dq
              @ utf16_take 4 s @ ''...'' @ dq @ '')''
          else ''MISSING'')"

text \<open>The first handler of \<^verbatim>\<open>src/api/debug.js\<close>: it does not look at the request.\<close>

definition debug_js_handler :: "world \<Rightarrow> request \<Rightarrow> event list" where
  "debug_js_handler w req =
     [Responded
        (res_json (Obj (map (\<lambda>v. (v, Str (var_status (process_env w v)))) vars))
           (res_status 200 res0))]"

subsection \<open>The quote handler that writes the record first\<close>

text \<open>\<^verbatim>\<open>v[0]\<close>\<close>

fun index0 :: "jsval \<Rightarrow> jsval" where
  "index0 (Arr xs) = (case xs of [] \<Rightarrow> Undefined | x # _ \<Rightarrow> x)"
| "index0 (Str s) = (if s = [] then Undefined else Str (utf16_take 1 s))"
| "index0 (Obj kvs) = (case map_of kvs ''0'' of None \<Rightarrow> Undefined | Some v \<Rightarrow> v)"
| "index0 v = Undefined"

text \<open>\<^verbatim>\<open>airtableResult.records?.[0]?.id || null\<close>, inside the \<^verbatim>\<open>try\<close> whose
  \<^verbatim>\<open>catch\<close> leaves \<^verbatim>\<open>airtableRecordId\<close> at \<^verbatim>\<open>null\<close>.\<close>

definition record_id :: "jsval \<Rightarrow> jsval" where
  "record_id airtableResult =
     (if nullish airtableResult then Null
      else
        let records = property airtableResult ''records'' in
        if nullish records then Null
        else
          let first = index0 records in
          if nullish first then Null else js_or (property first ''id'') Null)"

text \<open>\<^verbatim>\<open>airtableRecordId\<close> after the \<^verbatim>\<open>try\<close>: \<^verbatim>\<open>null\<close> when
  \<^verbatim>\<open>createAirtableRecord\<close> rejected.\<close>

definition record_id_after :: "js_error + jsval \<Rightarrow> jsval" where
  "record_id_after settled =
     (case settled of Inl err \<Rightarrow> Null | Inr airtableResult \<Rightarrow> record_id airtableResult)"

text \<open>\<^verbatim>\<open>airtableUrl\<close>: the record identifier is interpolated when it is truthy.\<close>

definition airtable_link :: "(string \<rightharpoonup> string) \<Rightarrow> jsval \<Rightarrow> js_error + string" where
  "airtable_link e airtableRecordId =
     (if truthy airtableRecordId then
        (case to_string airtableRecordId of
           Inl err \<Rightarrow> Inl err
         | Inr rid \<Rightarrow>
             Inr (''https://airtable.com/'' @ string_of (env e ''AIRTABLE_BASE_ID'') @ ''/''
               @ string_of (env e ''AIRTABLE_TABLE_ID'') @ ''/'' @ rid))
      else
        Inr (''https://airtable.com/'' @ string_of (env e ''AIRTABLE_BASE_ID'') @ ''/''
          @ string_of (env e ''AIRTABLE_TABLE_ID'')))"

text \<open>The pieces of the HTML template that differ from those of \<^verbatim>\<open>src/api/quote.js\<close>:
  the details row, and the link to the record after the table.\<close>

definition html_link_details_row_1 :: string where
  "html_link_details_row_1 =
     ''<tr>'' @ nl @ ''          <td style='' @ dq
     @ ''padding: 10px 0; border-bottom: 1px solid #eee; font-weight: 600; vertical-align: top;''
     @ dq @ ''>Details</td>'' @ nl @ ''          <td style='' @ dq @ ''padding: 10px 0;'' @ dq
     @ ''>''"

definition html_link_button :: string where
  "html_link_button =
     nl @ ''      </table>'' @ nl @ ''      <p style='' @ dq @ ''margin-top: 20px;'' @ dq @ ''>''
     @ nl @ ''        <a href='' @ dq"

definition html_link_tail :: string where
  "html_link_tail =
     dq @ '' style='' @ dq
     @ ''display: inline-block; padding: 10px 20px; background: #00BF66; color: #fff; text-decoration: none; border-radius: 6px; font-weight: 600;''
     @ dq @ ''>View in Airtable</a>'' @ nl @ ''      </p>'' @ nl @ ''    </div>'' @ nl @ ''  ''"

definition debug_js_email_html :: "string \<Rightarrow> string \<Rightarrow> quote_data \<Rightarrow> js_error + string" where
  "debug_js_email_html ts airtableUrl data =
     (if list_all printable (interpolated data) then
        Inr (html_head @ ts
          @ html_name_row @ string_of (name data)
          @ html_phone_row @ string_of (phone data) @ html_phone_mid @ string_of (phone data)
          @ html_address_row @ string_of (address data)
          @ html_address_end
          @ (if truthy (service data)
             then html_service_row_1 @ string_of (service data) @ html_service_row_2 else [])
          @ html_gap
          @ (if truthy (urgency data)
             then html_urgency_row_1 @ string_of (urgency data) @ html_urgency_row_2 else [])
          @ html_gap
          @ (if truthy (details data)
             then html_link_details_row_1 @ string_of (details data) @ html_details_row_2
             else [])
          @ html_link_button @ airtableUrl @ html_link_tail)
      else Inl cannot_convert)"

definition debug_js_sms_heading :: string where
  "debug_js_sms_heading = herb @ '' New WeMow760 Quote Request''"

definition debug_js_sendSMS :: "world \<Rightarrow> quote_data \<Rightarrow> attempt" where
  "debug_js_sendSMS w data =
     (case sms_message debug_js_sms_heading data of
        Inl e \<Rightarrow> (None, Inl e)
      | Inr message \<Rightarrow>
          let req = sms_request (process_env w) message
          in (Some req, sms_result (fetch w req)))"

definition debug_js_sendEmail :: "world \<Rightarrow> quote_data \<Rightarrow> jsval \<Rightarrow> attempt" where
  "debug_js_sendEmail w data airtableRecordId =
     (case airtable_link (process_env w) airtableRecordId of
        Inl e \<Rightarrow> (None, Inl e)
      | Inr airtableUrl \<Rightarrow>
          (case debug_js_email_html (timestamp w) airtableUrl data of
             Inl e \<Rightarrow> (None, Inl e)
           | Inr html \<Rightarrow>
               (case email_subject ''New Quote Request'' data of
                  Inl e \<Rightarrow> (None, Inl e)
                | Inr subject \<Rightarrow>
                    let req = email_request (process_env w) subject html
                    in (Some req, json_or_throw ''Resend'' (fetch w req)))))"

text \<open>The second handler of \<^verbatim>\<open>src/api/debug.js\<close>: the record is created and awaited
  first, its failure caught on the spot; then the text message and the e-mail go out
  together.\<close>

definition debug_js_quote_handler :: "world \<Rightarrow> request \<Rightarrow> event list" where
  "debug_js_quote_handler w req =
     (if req_method req = ''OPTIONS'' then preflight
      else if req_method req \<noteq> ''POST'' then method_not_allowed
      else
        let res = cors res0 in
        case destructure (body req) of
          Inl err \<Rightarrow> server_error res
        | Inr formData \<Rightarrow>
            if \<not> truthy (name formData) \<or> \<not> truthy (phone formData)
               \<or> \<not> truthy (address formData)
            then bad_request res
            else
              let airtable = part_000_createAirtableRecord w formData;
                  airtableRecordId = record_id_after (snd airtable);
                  sms = debug_js_sendSMS w formData;
                  email = debug_js_sendEmail w formData airtableRecordId
              in called Airtable formData airtable @ [Settled Airtable (snd airtable)]
                 @ called SMS formData sms @ called Email formData email
                 @ allSettled w [(SMS, sms), (Email, email)]
                 @ [Responded (res_json (Obj [(''success'', Bool True)]) (res_status 200 res))])"

section \<open>Notions used in the statements\<close>

text \<open>The headers of a response after the three \<^verbatim>\<open>res.setHeader\<close> calls.\<close>

definition cors_map :: "string \<rightharpoonup> string" where
  "cors_map =
     [''Access-Control-Allow-Origin'' \<mapsto> ''*'',
      ''Access-Control-Allow-Methods'' \<mapsto> ''POST'',
      ''Access-Control-Allow-Headers'' \<mapsto> ''Content-Type'']"

fun is_call :: "event \<Rightarrow> bool" where
  "is_call (Called c d rq) = True"
| "is_call e = False"

fun is_response :: "event \<Rightarrow> bool" where
  "is_response (Responded r) = True"
| "is_response e = False"

text \<open>The settlement of a given collaborator.\<close>

fun is_settled :: "collaborator \<Rightarrow> event \<Rightarrow> bool" where
  "is_settled c (Settled c' r) = (c' = c)"
| "is_settled c e = False"

text \<open>The collaborators contacted in a run, in order.\<close>

fun targets :: "event list \<Rightarrow> collaborator list" where
  "targets [] = []"
| "targets (Called c d rq # es) = c # targets es"
| "targets (e # es) = targets es"

text \<open>The responses sent in a run, in order.\<close>

fun responses :: "event list \<Rightarrow> response list" where
  "responses [] = []"
| "responses (Responded r # es) = r # responses es"
| "responses (e # es) = responses es"

text \<open>What happens before the first response.\<close>

definition before_response :: "event list \<Rightarrow> event list" where
  "before_response tr = takeWhile (\<lambda>e. \<not> is_response e) tr"

text \<open>A line that starts with a given label.\<close>

definition labelled :: "string \<Rightarrow> string \<Rightarrow> bool" where
  "labelled l s = (take (length l) s = l)"

text \<open>The lines of a text, split at the newline character.\<close>

fun lines_of :: "string \<Rightarrow> string list" where
  "lines_of [] = [[]]"
| "lines_of (c # cs) =
     (if c = CHR 0x0A then [] # lines_of cs
      else (case lines_of cs of [] \<Rightarrow> [[c]] | l # ls \<Rightarrow> (c # l) # ls))"

text \<open>A value whose text has no line break.\<close>

definition one_line :: "jsval \<Rightarrow> bool" where
  "one_line v = (CHR 0x0A \<notin> set (string_of v))"

text \<open>The line of an optional field: none when the field is falsy.\<close>

definition optional_line :: "string \<Rightarrow> jsval \<Rightarrow> string list" where
  "optional_line l v = (if truthy v then [l @ string_of v] else [])"

text \<open>\<^verbatim>\<open>Object.keys(v)\<close>\<close>

fun keys :: "jsval \<Rightarrow> string list" where
  "keys (Obj kvs) = map fst kvs"
| "keys v = []"

text \<open>The field set a record-store request carries: \<^verbatim>\<open>body.records[0].fields\<close>.\<close>

definition record_fields :: "fetch_request \<Rightarrow> jsval" where
  "record_fields rq = property (index0 (property (fetch_body rq) ''records'')) ''fields''"


section \<open>Example inputs\<close>

definition example_env :: "string \<rightharpoonup> string" where
  "example_env =
     [''AIRTABLE_API_KEY'' \<mapsto> ''patAbCdEf0123456789'',
      ''AIRTABLE_BASE_ID'' \<mapsto> ''appBase0000000001'',
      ''AIRTABLE_TABLE_ID'' \<mapsto> ''Jobs'',
      ''TEXTBELT_API_KEY'' \<mapsto> ''textbelt'',
      ''NOTIFY_PHONE'' \<mapsto> ''7605550199'',
      ''NOTIFY_EMAIL'' \<mapsto> ''owner@wemow760.com'',
      ''RESEND_API_KEY'' \<mapsto> ''re_0123456789'']"

text \<open>A world without network: every \<^verbatim>\<open>fetch\<close> rejects, at once.\<close>

definition offline :: world where
  "offline =
     \<lparr>process_env = example_env,
      fetch = (\<lambda>rq. FetchRejected (JsError ''TypeError'' ''fetch failed'')),
      timestamp = ''Nov 2, 2026, 2:06 PM'',
      latency = (\<lambda>c. 0)\<rparr>"

text \<open>A world in which the record store answers 422 and the two gateways accept; the
  e-mail gateway is the first to answer, the SMS gateway the last.\<close>

definition airtable_down :: world where
  "airtable_down =
     \<lparr>process_env = example_env,
      fetch = (\<lambda>rq.
        if url rq = ''https://textbelt.com/text'' then
          FetchResolved \<lparr>resp_ok = True, resp_status = 200, resp_text = Inr [],
            resp_json = Inr (Obj [(''success'', Bool True), (''quotaRemaining'', Num ''40'')])\<rparr>
        else if url rq = ''https://api.resend.com/emails'' then
          FetchResolved \<lparr>resp_ok = True, resp_status = 200, resp_text = Inr [],
            resp_json = Inr (Obj [(''id'', Str ''49a3999c'')])\<rparr>
        else
          FetchResolved \<lparr>resp_ok = False, resp_status = 422,
            resp_text = Inr ''INVALID_VALUE_FOR_COLUMN'',
            resp_json = Inr (Obj [(''error'', Str ''INVALID_VALUE_FOR_COLUMN'')])\<rparr>),
      timestamp = ''Nov 2, 2026, 2:06 PM'',
      latency = (\<lambda>c. case c of Airtable \<Rightarrow> 2 | SMS \<Rightarrow> 3 | Email \<Rightarrow> 1)\<rparr>"

text \<open>The submission of the specification's example.\<close>

definition jane :: quote_data where
  "jane =
     \<lparr>name = Str ''Jane Doe'', phone = Str ''760-555-0100'', address = Str ''123 Oak St'',
      service = Str ''Mowing'', urgency = Undefined, details = Str ''Gate code 4521''\<rparr>"

definition jane_request :: request where
  "jane_request =
     \<lparr>req_method = ''POST'',
      body = Obj
        [(''name'', Str ''Jane Doe''),
         (''phone'', Str ''760-555-0100''),
         (''address'', Str ''123 Oak St''),
         (''service'', Str ''Mowing''),
         (''details'', Str ''Gate code 4521'')]\<rparr>"

text \<open>A submission with the required fields only.\<close>

definition bare :: quote_data where
  "bare =
     \<lparr>name = Str ''Jane Doe'', phone = Str ''760-555-0100'', address = Str ''123 Oak St'',
      service = Undefined, urgency = Undefined, details = Undefined\<rparr>"

text \<open>A POST without a body, a preflight, a GET, and a submission whose phone is empty
  and whose address is missing.\<close>

definition empty_post :: request where
  "empty_post = \<lparr>req_method = ''POST'', body = Undefined\<rparr>"

definition options_request :: request where
  "options_request = \<lparr>req_method = ''OPTIONS'', body = Undefined\<rparr>"

definition get_request :: request where
  "get_request = \<lparr>req_method = ''GET'', body = Undefined\<rparr>"

definition incomplete :: quote_data where
  "incomplete =
     \<lparr>name = Str ''Jane Doe'', phone = Str [], address = Undefined, service = Undefined,
      urgency = Undefined, details = Undefined\<rparr>"

definition incomplete_request :: request where
  "incomplete_request =
     \<lparr>req_method = ''POST'', body = Obj [(''name'', Str ''Jane Doe''), (''phone'', Str [])]\<rparr>"

text \<open>The example submission with two more keys in the body.\<close>

definition jane_request_extra :: request where
  "jane_request_extra =
     \<lparr>req_method = ''POST'',
      body = Obj
        [(''name'', Str ''Jane Doe''),
         (''phone'', Str ''760-555-0100''),
         (''address'', Str ''123 Oak St''),
         (''service'', Str ''Mowing''),
         (''details'', Str ''Gate code 4521''),
         (''company'', Str ''ACME''),
         (''admin'', Bool True)]\<rparr>"

text \<open>A submission whose name is the JSON object \<^verbatim>\<open>{"toString": 1}\<close>: truthy, and
  not convertible to text.\<close>

definition odd :: quote_data where
  "odd =
     \<lparr>name = Obj [(''toString'', Num ''1'')], phone = Str ''760-555-0100'',
      address = Str ''123 Oak St'', service = Undefined, urgency = Undefined,
      details = Undefined\<rparr>"

definition odd_request :: request where
  "odd_request =
     \<lparr>req_method = ''POST'',
      body = Obj
        [(''name'', Obj [(''toString'', Num ''1'')]),
         (''phone'', Str ''760-555-0100''),
         (''address'', Str ''123 Oak St'')]\<rparr>"

text \<open>A submission without urgency whose name holds a line break.\<close>

definition eve :: quote_data where
  "eve =
     \<lparr>name = Str (''Eve'' @ nl @ ''Urgency: NOW''), phone = Str ''760-555-0100'',
      address = Str ''123 Oak St'', service = Undefined, urgency = Undefined,
      details = Undefined\<rparr>"

definition eve_request :: request where
  "eve_request =
     \<lparr>req_method = ''POST'',
      body = Obj
        [(''name'', Str (''Eve'' @ nl @ ''Urgency: NOW'')),
         (''phone'', Str ''760-555-0100''),
         (''address'', Str ''123 Oak St'')]\<rparr>"

text \<open>The text message rendered for it.\<close>

definition eve_message :: string where
  "eve_message =
     herb @ '' New WeMow760 Quote'' @ nl @ ''Name: Eve'' @ nl @ ''Urgency: NOW'' @ nl
     @ ''Phone: 760-555-0100'' @ nl @ ''Address: 123 Oak St''"

text \<open>The world \<open>airtable_down\<close> with a record store that accepts.\<close>

definition all_well :: world where
  "all_well =
     airtable_down
       \<lparr>fetch := (\<lambda>rq.
          if url rq = airtable_url example_env then
            FetchResolved \<lparr>resp_ok = True, resp_status = 200, resp_text = Inr [],
              resp_json = Inr (Obj [(''records'', Arr [Obj [(''id'', Str ''rec1'')]])])\<rparr>
          else fetch airtable_down rq)\<rparr>"
section \<open>The shape of a run\<close>

lemma cors_res0: "cors res0 = \<lparr>status = 200, headers = cors_map, sent = NoBody\<rparr>"
  by (simp add: cors_def res0_def setHeader_def cors_map_def)

lemma bad_request_cors:
  "bad_request (cors res0) =
     [Responded \<lparr>status = 400, headers = cors_map,
        sent = Json (Obj [(''error'', Str ''Name, phone, and address are required.'')])\<rparr>]"
  by (simp add: bad_request_def cors_res0 res_json_def res_status_def)

lemma server_error_cors:
  "server_error (cors res0) =
     [Responded \<lparr>status = 500, headers = cors_map,
        sent = Json (Obj [(''error'', Str ''Something went wrong. Please call us instead.'')])\<rparr>]"
  by (simp add: server_error_def cors_res0 res_json_def res_status_def)

lemma method_not_allowed_eq:
  "method_not_allowed =
     [Responded \<lparr>status = 405, headers = Map.empty,
        sent = Json (Obj [(''error'', Str ''Method not allowed'')])\<rparr>]"
  by (simp add: method_not_allowed_def res0_def res_json_def res_status_def)

lemma preflight_eq:
  "preflight = [Responded \<lparr>status = 200, headers = cors_map, sent = NoBody\<rparr>]"
  by (simp add: preflight_def cors_res0 res_end_def res_status_def)

lemma quote_js_handler_valid:
  assumes "req_method req = ''POST''" and "destructure (body req) = Inr d"
    and "truthy (name d)" and "truthy (phone d)" and "truthy (address d)"
  shows "quote_js_handler w req =
     called Airtable d (createAirtableRecord w d) @ called SMS d (sendSMS w d)
     @ called Email d (sendEmail w d)
     @ allSettled w
         [(Airtable, createAirtableRecord w d), (SMS, sendSMS w d), (Email, sendEmail w d)]
     @ [Responded
          \<lparr>status = 200, headers = cors_map, sent = Json (Obj [(''success'', Bool True)])\<rparr>]"
  using assms
  by (simp add: quote_js_handler_def Let_def cors_res0 res_json_def res_status_def)

lemma part_000_handler_valid:
  assumes "req_method req = ''POST''" and "destructure (body req) = Inr d"
    and "truthy (name d)" and "truthy (phone d)" and "truthy (address d)"
  shows "part_000_handler w req =
     called Airtable d (part_000_createAirtableRecord w d) @ called SMS d (sendSMS w d)
     @ called Email d (sendEmail w d)
     @ allSettled w
         [(Airtable, part_000_createAirtableRecord w d), (SMS, sendSMS w d),
          (Email, sendEmail w d)]
     @ [Responded
          \<lparr>status = 200, headers = cors_map,
           sent = Json (Obj
             [(''success'', Bool True),
              (''_debug'', Obj
                [(''airtable'', summary_entry (snd (part_000_createAirtableRecord w d))),
                 (''sms'', summary_entry (snd (sendSMS w d))),
                 (''email'', summary_entry (snd (sendEmail w d)))])])\<rparr>]"
  using assms
  by (simp add: part_000_handler_def Let_def cors_res0 res_json_def res_status_def)

lemma debug_js_quote_handler_valid:
  assumes "req_method req = ''POST''" and "destructure (body req) = Inr d"
    and "truthy (name d)" and "truthy (phone d)" and "truthy (address d)"
  shows "debug_js_quote_handler w req =
     called Airtable d (part_000_createAirtableRecord w d)
     @ [Settled Airtable (snd (part_000_createAirtableRecord w d))]
     @ called SMS d (debug_js_sendSMS w d)
     @ called Email d (debug_js_sendEmail w d
         (record_id_after (snd (part_000_createAirtableRecord w d))))
     @ allSettled w
         [(SMS, debug_js_sendSMS w d),
          (Email, debug_js_sendEmail w d
             (record_id_after (snd (part_000_createAirtableRecord w d))))]
     @ [Responded
          \<lparr>status = 200, headers = cors_map, sent = Json (Obj [(''success'', Bool True)])\<rparr>]"
  using assms
  by (simp add: debug_js_quote_handler_def Let_def cors_res0 res_json_def res_status_def)

lemma handlers_invalid:
  assumes "req_method req = ''POST''" and "destructure (body req) = Inr d"
    and "\<not> truthy (name d) \<or> \<not> truthy (phone d) \<or> \<not> truthy (address d)"
  shows "quote_js_handler w req = bad_request (cors res0)"
    and "part_000_handler w req = bad_request (cors res0)"
    and "debug_js_quote_handler w req = bad_request (cors res0)"
  using assms
  by (auto simp add: quote_js_handler_def part_000_handler_def debug_js_quote_handler_def
      Let_def)

lemma handlers_read:
  assumes "req_method r1 = req_method r2" and "destructure (body r1) = destructure (body r2)"
  shows "quote_js_handler w r1 = quote_js_handler w r2"
    and "part_000_handler w r1 = part_000_handler w r2"
    and "debug_js_quote_handler w r1 = debug_js_quote_handler w r2"
  using assms
  by (simp_all add: quote_js_handler_def part_000_handler_def debug_js_quote_handler_def)

text \<open>Calls, settlements and responses in the parts of a run.\<close>

lemma filter_called [simp]:
  "filter is_call (called c d a) = called c d a"
  "filter (is_settled c') (called c d a) = []"
  "filter (\<lambda>e. \<not> is_response e) (called c d a) = called c d a"
  by (simp_all add: called_def split: option.splits)

lemma responses_append [simp]: "responses (xs @ ys) = responses xs @ responses ys"
  by (induction xs rule: responses.induct) simp_all

lemma targets_append [simp]: "targets (xs @ ys) = targets xs @ targets ys"
  by (induction xs rule: targets.induct) simp_all

lemma responses_called [simp]: "responses (called c d a) = []"
  by (simp add: called_def split: option.splits)

lemma targets_called: "targets (called c d a) = (case fst a of None \<Rightarrow> [] | Some rq \<Rightarrow> [c])"
  by (simp add: called_def split: option.splits)

lemma filter_allSettled [simp]:
  "filter is_call (allSettled w ops) = []"
  "filter (\<lambda>e. \<not> is_response e) (allSettled w ops) = allSettled w ops"
  by (simp_all add: allSettled_def filter_map comp_def case_prod_unfold)

lemma responses_settlements:
  "responses (map (\<lambda>(c, a). Settled c (snd a)) xs) = []"
  "targets (map (\<lambda>(c, a). Settled c (snd a)) xs) = []"
  by (induction xs) auto

lemma responses_allSettled [simp]:
  "responses (allSettled w ops) = []" "targets (allSettled w ops) = []"
  by (simp_all add: allSettled_def responses_settlements)


lemma allSettled_one [simp]: "allSettled w [(c, a)] = [Settled c (snd a)]"
  by (simp add: allSettled_def)

lemma before_response_run:
  assumes "filter (\<lambda>e. \<not> is_response e) xs = xs"
  shows "before_response (xs @ Responded r # ys) = xs"
proof -
  have "\<forall>e \<in> set xs. \<not> is_response e"
    using assms by (metis (mono_tags, lifting) filter_id_conv)
  then show ?thesis
    by (simp add: before_response_def takeWhile_tail takeWhile_append2)
qed

lemma destructure_jane: "destructure (body jane_request) = Inr jane"
  by (simp add: destructure_def nullish_def jane_request_def jane_def)

lemma jane_valid:
  "req_method jane_request = ''POST''" "truthy (name jane)" "truthy (phone jane)"
  "truthy (address jane)"
  by (simp_all add: jane_request_def jane_def)

text \<open>When the rendering succeeds, and what the text message then is.\<close>

lemma interpolated_printable:
  "list_all printable (interpolated d) \<longleftrightarrow>
     printable (name d) \<and> printable (phone d) \<and> printable (address d)
     \<and> (truthy (service d) \<longrightarrow> printable (service d))
     \<and> (truthy (urgency d) \<longrightarrow> printable (urgency d))
     \<and> (truthy (details d) \<longrightarrow> printable (details d))"
  by (auto simp add: interpolated_def)

lemma interpolated_one_line:
  "list_all one_line (interpolated d) \<longleftrightarrow>
     one_line (name d) \<and> one_line (phone d) \<and> one_line (address d)
     \<and> (truthy (service d) \<longrightarrow> one_line (service d))
     \<and> (truthy (urgency d) \<longrightarrow> one_line (urgency d))
     \<and> (truthy (details d) \<longrightarrow> one_line (details d))"
  by (auto simp add: interpolated_def)

lemma sms_text:
  assumes "heading \<noteq> []"
  shows "array_join nl (sms_lines heading d) =
     join nl (heading # (''Name: '' @ string_of (name d)) # (''Phone: '' @ string_of (phone d))
       # (''Address: '' @ string_of (address d)) # optional_line ''Service: '' (service d)
       @ optional_line ''Urgency: '' (urgency d) @ optional_line ''Details: '' (details d))"
  using assms by (simp add: array_join_def sms_lines_def optional_line_def)

lemma headings_not_empty: "sms_heading \<noteq> []" "debug_js_sms_heading \<noteq> []"
  by (simp_all add: sms_heading_def debug_js_sms_heading_def herb_def)

lemma sms_message_printable:
  assumes "list_all printable (interpolated d)" and "heading \<noteq> []"
  shows "sms_message heading d =
     Inr (join nl (heading # (''Name: '' @ string_of (name d))
       # (''Phone: '' @ string_of (phone d)) # (''Address: '' @ string_of (address d))
       # optional_line ''Service: '' (service d) @ optional_line ''Urgency: '' (urgency d)
       @ optional_line ''Details: '' (details d)))"
  using assms by (simp add: sms_message_def sms_text)

lemma email_subject_printable:
  assumes "list_all printable (interpolated d)"
  shows "email_subject title d =
     Inr (title @ '' '' @ em_dash @ '' '' @ string_of (name d)
       @ (if truthy (service d) then '' ('' @ string_of (service d) @ '')'' else []))"
  using assms by (simp add: email_subject_def interpolated_printable)

text \<open>The lines of a text joined from pieces without line break are the pieces.\<close>

lemma lines_of_single: "CHR 0x0A \<notin> set x \<Longrightarrow> lines_of x = [x]"
  by (induction x) auto

lemma lines_of_append: "CHR 0x0A \<notin> set x \<Longrightarrow> lines_of (x @ CHR 0x0A # r) = x # lines_of r"
  by (induction x) auto

lemma lines_of_join:
  assumes "xs \<noteq> []" and "\<forall>x \<in> set xs. CHR 0x0A \<notin> set x"
  shows "lines_of (join nl xs) = xs"
  using assms
  by (induction nl xs rule: join.induct) (simp_all add: lines_of_single lines_of_append nl_def)

text \<open>A text that occurs in a longer one.\<close>

lemma sublist_skip: "sublist xs ys \<Longrightarrow> sublist xs (zs @ ys)"
  by (metis append.assoc sublist_def)

lemma email_html_carries:
  assumes "email_html ts d = Inr h" and "v \<in> set (interpolated d)"
  shows "sublist (string_of v) h"
proof -
  have h: "h = html_head @ ts
          @ html_name_row @ string_of (name d)
          @ html_phone_row @ string_of (phone d) @ html_phone_mid @ string_of (phone d)
          @ html_address_row @ string_of (address d)
          @ html_address_end
          @ (if truthy (service d)
             then html_service_row_1 @ string_of (service d) @ html_service_row_2 else [])
          @ html_gap
          @ (if truthy (urgency d)
             then html_urgency_row_1 @ string_of (urgency d) @ html_urgency_row_2 else [])
          @ html_gap
          @ (if truthy (details d)
             then html_details_row_1 @ string_of (details d) @ html_details_row_2 else [])
          @ html_tail"
    using assms(1) by (simp add: email_html_def split: if_splits)
  consider "v = name d" | "v = phone d" | "v = address d"
    | "v = service d" "truthy (service d)" | "v = urgency d" "truthy (urgency d)"
    | "v = details d" "truthy (details d)"
    using assms(2) by (auto simp add: interpolated_def split: if_splits)
  then show ?thesis
  proof cases
    case 1
    show ?thesis unfolding h 1 by (rule sublist_append_rightI | rule sublist_skip)+
  next
    case 2
    show ?thesis unfolding h 2 by (rule sublist_append_rightI | rule sublist_skip)+
  next
    case 3
    show ?thesis unfolding h 3 by (rule sublist_append_rightI | rule sublist_skip)+
  next
    case 4
    show ?thesis unfolding h 4(1)
      by (simp only: 4(2) if_True append_assoc)
        ((rule sublist_append_rightI | rule sublist_skip)+)
  next
    case 5
    show ?thesis unfolding h 5(1)
      by (simp only: 5(2) if_True append_assoc)
        ((rule sublist_append_rightI | rule sublist_skip)+)
  next
    case 6
    show ?thesis unfolding h 6(1)
      by (simp only: 6(2) if_True append_assoc)
        ((rule sublist_append_rightI | rule sublist_skip)+)
  qed
qed

lemma debug_js_email_html_carries:
  assumes "debug_js_email_html ts link d = Inr h" and "v \<in> set (interpolated d)"
  shows "sublist (string_of v) h"
proof -
  have h: "h = html_head @ ts
          @ html_name_row @ string_of (name d)
          @ html_phone_row @ string_of (phone d) @ html_phone_mid @ string_of (phone d)
          @ html_address_row @ string_of (address d)
          @ html_address_end
          @ (if truthy (service d)
             then html_service_row_1 @ string_of (service d) @ html_service_row_2 else [])
          @ html_gap
          @ (if truthy (urgency d)
             then html_urgency_row_1 @ string_of (urgency d) @ html_urgency_row_2 else [])
          @ html_gap
          @ (if truthy (details d)
             then html_link_details_row_1 @ string_of (details d) @ html_details_row_2
             else [])
          @ html_link_button @ link @ html_link_tail"
    using assms(1) by (simp add: debug_js_email_html_def split: if_splits)
  consider "v = name d" | "v = phone d" | "v = address d"
    | "v = service d" "truthy (service d)" | "v = urgency d" "truthy (urgency d)"
    | "v = details d" "truthy (details d)"
    using assms(2) by (auto simp add: interpolated_def split: if_splits)
  then show ?thesis
  proof cases
    case 1
    show ?thesis unfolding h 1 by (rule sublist_append_rightI | rule sublist_skip)+
  next
    case 2
    show ?thesis unfolding h 2 by (rule sublist_append_rightI | rule sublist_skip)+
  next
    case 3
    show ?thesis unfolding h 3 by (rule sublist_append_rightI | rule sublist_skip)+
  next
    case 4
    show ?thesis unfolding h 4(1)
      by (simp only: 4(2) if_True append_assoc)
        ((rule sublist_append_rightI | rule sublist_skip)+)
  next
    case 5
    show ?thesis unfolding h 5(1)
      by (simp only: 5(2) if_True append_assoc)
        ((rule sublist_append_rightI | rule sublist_skip)+)
  next
    case 6
    show ?thesis unfolding h 6(1)
      by (simp only: 6(2) if_True append_assoc)
        ((rule sublist_append_rightI | rule sublist_skip)+)
  qed
qed

text \<open>The calls of the collaborators when the rendering succeeds.\<close>

lemma called_createAirtableRecord:
  "called Airtable d (createAirtableRecord w d) =
     [Called Airtable d (airtable_request (process_env w) (airtable_fields d))]"
  "called Airtable d (part_000_createAirtableRecord w d) =
     [Called Airtable d (airtable_request (process_env w) (part_000_airtable_fields d))]"
  by (simp_all add: called_def createAirtableRecord_def part_000_createAirtableRecord_def
      Let_def)

lemma called_sendSMS:
  assumes "sms_message sms_heading d = Inr m"
  shows "called SMS d (sendSMS w d) = [Called SMS d (sms_request (process_env w) m)]"
  using assms by (simp add: called_def sendSMS_def Let_def)

lemma called_debug_js_sendSMS:
  assumes "sms_message debug_js_sms_heading d = Inr m"
  shows "called SMS d (debug_js_sendSMS w d) = [Called SMS d (sms_request (process_env w) m)]"
  using assms by (simp add: called_def debug_js_sendSMS_def Let_def)

lemma called_sendEmail:
  assumes "email_html (timestamp w) d = Inr h" and "email_subject ''New Quote'' d = Inr s"
  shows "called Email d (sendEmail w d) = [Called Email d (email_request (process_env w) s h)]"
  using assms by (simp add: called_def sendEmail_def Let_def)

lemma called_debug_js_sendEmail:
  assumes "airtable_link (process_env w) rid = Inr link"
    and "debug_js_email_html (timestamp w) link d = Inr h"
    and "email_subject ''New Quote Request'' d = Inr s"
  shows "called Email d (debug_js_sendEmail w d rid) =
     [Called Email d (email_request (process_env w) s h)]"
  using assms by (simp add: called_def debug_js_sendEmail_def Let_def)

lemma not_called_unprintable:
  assumes "\<not> list_all printable (interpolated d)"
  shows "sendSMS w d = (None, Inl cannot_convert)"
    and "sendEmail w d = (None, Inl cannot_convert)"
    and "debug_js_sendSMS w d = (None, Inl cannot_convert)"
    and "fst (debug_js_sendEmail w d rid) = None"
  using assms
  by (simp_all add: sendSMS_def sendEmail_def debug_js_sendSMS_def debug_js_sendEmail_def
      sms_message_def email_html_def debug_js_email_html_def split: sum.splits)

text \<open>The field set of a record-store request, and the keys that survive
  \<^verbatim>\<open>JSON.stringify\<close>.\<close>

lemma record_fields_airtable_request:
  "record_fields (airtable_request e flds) = JSON_stringify (Obj flds)"
  by (simp add: record_fields_def airtable_request_def)

lemma keys_stringify:
  "keys (JSON_stringify (Obj flds)) = map fst (filter (\<lambda>(k, v). v \<noteq> Undefined) flds)"
  by (induction flds) auto

lemma key_left_out:
  assumes "\<And>v. (k, v) \<in> set flds \<Longrightarrow> v = Undefined"
  shows "k \<notin> set (keys (JSON_stringify (Obj flds)))"
  using assms by (auto simp add: keys_stringify)

lemma property_stringify:
  assumes "map_of flds k = Some v" and "v \<noteq> Undefined"
  shows "property (JSON_stringify (Obj flds)) k = JSON_stringify v"
  using assms by (induction flds) (auto split: if_splits)

text \<open>The answer to a request that is not a POST: no collaborator is called.\<close>

lemma method_dispatch:
  "req_method req \<noteq> ''POST'' \<Longrightarrow>
     quote_js_handler w req =
       [Responded \<lparr>status = 405, headers = Map.empty,
          sent = Json (Obj [(''error'', Str ''Method not allowed'')])\<rparr>]"
  "req_method req \<noteq> ''POST'' \<Longrightarrow> req_method req \<noteq> ''OPTIONS'' \<Longrightarrow>
     part_000_handler w req =
       [Responded \<lparr>status = 405, headers = Map.empty,
          sent = Json (Obj [(''error'', Str ''Method not allowed'')])\<rparr>]"
  "req_method req \<noteq> ''POST'' \<Longrightarrow> req_method req \<noteq> ''OPTIONS'' \<Longrightarrow>
     debug_js_quote_handler w req =
       [Responded \<lparr>status = 405, headers = Map.empty,
          sent = Json (Obj [(''error'', Str ''Method not allowed'')])\<rparr>]"
  "req_method req = ''OPTIONS'' \<Longrightarrow>
     part_000_handler w req = [Responded \<lparr>status = 200, headers = cors_map, sent = NoBody\<rparr>]"
  "req_method req = ''OPTIONS'' \<Longrightarrow>
     debug_js_quote_handler w req =
       [Responded \<lparr>status = 200, headers = cors_map, sent = NoBody\<rparr>]"
  by (simp_all add: quote_js_handler_def part_000_handler_def debug_js_quote_handler_def
      method_not_allowed_eq preflight_eq)

text \<open>The optional record fields, and the fixed one.\<close>

lemma status_field:
  "map_of (airtable_fields d) ''Status'' = Some (Str ''New'')"
  "map_of (part_000_airtable_fields d) ''Status'' = Some (Str ''New'')"
  by (simp_all add: airtable_fields_def part_000_airtable_fields_def Let_def)

lemma optional_fields_undefined:
  "\<not> truthy (service d) \<Longrightarrow> (''Service'', v) \<in> set (airtable_fields d) \<Longrightarrow> v = Undefined"
  "\<not> truthy (urgency d) \<Longrightarrow> (''Urgency'', v) \<in> set (airtable_fields d) \<Longrightarrow> v = Undefined"
  "\<not> truthy (service d) \<Longrightarrow> (''Service'', v) \<in> set (part_000_airtable_fields d) \<Longrightarrow> v = Undefined"
  "\<not> truthy (urgency d) \<Longrightarrow> (''Urgency'', v) \<in> set (part_000_airtable_fields d) \<Longrightarrow> v = Undefined"
  by (auto simp add: airtable_fields_def part_000_airtable_fields_def js_or_def Let_def
      split: if_splits)

lemma optional_keys_left_out:
  "\<not> truthy (service d) \<Longrightarrow>
     ''Service'' \<notin> set (keys (JSON_stringify (Obj (airtable_fields d))))"
  "\<not> truthy (urgency d) \<Longrightarrow>
     ''Urgency'' \<notin> set (keys (JSON_stringify (Obj (airtable_fields d))))"
  "\<not> truthy (service d) \<Longrightarrow>
     ''Service'' \<notin> set (keys (JSON_stringify (Obj (part_000_airtable_fields d))))"
  "\<not> truthy (urgency d) \<Longrightarrow>
     ''Urgency'' \<notin> set (keys (JSON_stringify (Obj (part_000_airtable_fields d))))"
  by (rule key_left_out, erule (1) optional_fields_undefined)+

text \<open>The configuration report: one entry per name of the list, and an entry that depends on
  the length and the first four code units of the value only.\<close>

lemma debug_report_names:
  "\<exists>kvs. debug_js_handler w req =
           [Responded \<lparr>status = 200, headers = Map.empty, sent = Json (Obj kvs)\<rparr>]
         \<and> map fst kvs = vars"
  by (simp add: debug_js_handler_def res_json_def res_status_def res0_def comp_def)

lemma var_status_preview:
  assumes "utf16_length s = utf16_length t" and "utf16_take 4 s = utf16_take 4 t"
    and "s \<noteq> []" and "t \<noteq> []"
  shows "var_status (Some s) = var_status (Some t)"
  using assms by (simp add: var_status_def)

text \<open>How the example world \<open>airtable_down\<close> answers the three requests.\<close>

lemma airtable_down_airtable:
  "json_or_throw ''Airtable''
     (fetch airtable_down (airtable_request (process_env airtable_down) flds)) =
   Inl (Error ''Airtable 422: INVALID_VALUE_FOR_COLUMN'')"
  by (simp add: json_or_throw_def airtable_down_def airtable_request_def airtable_url_def
      env_def example_env_def show_nat.simps digit_char_def)

lemma airtable_down_sms:
  "sms_result (fetch airtable_down (sms_request e m)) =
   Inr (Obj [(''success'', Bool True), (''quotaRemaining'', Num ''40'')])"
  by (simp add: sms_result_def airtable_down_def sms_request_def get_member_def nullish_def)

lemma airtable_down_email:
  "json_or_throw ''Resend'' (fetch airtable_down (email_request e s h)) =
   Inr (Obj [(''id'', Str ''49a3999c'')])"
  by (simp add: json_or_throw_def airtable_down_def email_request_def)

lemma jane_printable: "list_all printable (interpolated jane)"
  by (simp add: interpolated_def jane_def)

lemma airtable_down_jane:
  "snd (createAirtableRecord airtable_down jane) =
     Inl (Error ''Airtable 422: INVALID_VALUE_FOR_COLUMN'')"
  "snd (part_000_createAirtableRecord airtable_down jane) =
     Inl (Error ''Airtable 422: INVALID_VALUE_FOR_COLUMN'')"
  "snd (sendSMS airtable_down jane) =
     Inr (Obj [(''success'', Bool True), (''quotaRemaining'', Num ''40'')])"
  "snd (debug_js_sendSMS airtable_down jane) =
     Inr (Obj [(''success'', Bool True), (''quotaRemaining'', Num ''40'')])"
  "snd (sendEmail airtable_down jane) = Inr (Obj [(''id'', Str ''49a3999c'')])"
  "snd (debug_js_sendEmail airtable_down jane Null) = Inr (Obj [(''id'', Str ''49a3999c'')])"
  by (simp_all add: createAirtableRecord_def part_000_createAirtableRecord_def sendSMS_def
      debug_js_sendSMS_def sendEmail_def debug_js_sendEmail_def Let_def sms_message_def
      email_html_def debug_js_email_html_def email_subject_def airtable_link_def
      jane_printable airtable_down_airtable airtable_down_sms airtable_down_email)
    (simp_all add: jane_def)






text \<open>A run that ends with its one response, and the settlements before it.\<close>

lemma run_ends:
  assumes "filter (\<lambda>e. \<not> is_response e) xs = xs"
  shows "xs @ [Responded r] = before_response (xs @ [Responded r]) @ [Responded r]"
  by (simp add: before_response_run [OF assms])


section \<open>Claims\<close>

text \<open>
  C1, as stated, does not hold: a POST that carries no body at all misses all three
  fields, and is answered with the generic status 500, not 400 (the destructuring throws
  inside the \<^verbatim>\<open>try\<close>).
\<close>

theorem missing_body_counterexample:
  "quote_js_handler offline empty_post =
     [Responded \<lparr>status = 500, headers = cors_map,
        sent = Json (Obj [(''error'', Str ''Something went wrong. Please call us instead.'')])\<rparr>]"
  by (simp add: quote_js_handler_def empty_post_def destructure_def nullish_def
      server_error_cors)

text \<open>
  C1, amended. For every POST whose body is present (neither \<^verbatim>\<open>null\<close> nor
  \<^verbatim>\<open>undefined\<close>, so that it yields the form data \<open>d\<close>) and in which name, phone or
  address is falsy (missing and empty are), the whole run of each of the three quote
  handlers is the response with status 400 and the body
  \<^verbatim>\<open>{error: "Name, phone, and address are required."}\<close>: no collaborator is called.
\<close>

theorem missing_field_rejected:
  assumes "req_method req = ''POST''" and "destructure (body req) = Inr d"
    and "\<not> truthy (name d) \<or> \<not> truthy (phone d) \<or> \<not> truthy (address d)"
  shows "quote_js_handler w req =
           [Responded \<lparr>status = 400, headers = cors_map,
              sent = Json (Obj [(''error'', Str ''Name, phone, and address are required.'')])\<rparr>]
       \<and> part_000_handler w req =
           [Responded \<lparr>status = 400, headers = cors_map,
              sent = Json (Obj [(''error'', Str ''Name, phone, and address are required.'')])\<rparr>]
       \<and> debug_js_quote_handler w req =
           [Responded \<lparr>status = 400, headers = cors_map,
              sent = Json (Obj [(''error'', Str ''Name, phone, and address are required.'')])\<rparr>]"
  using handlers_invalid [OF assms] by (simp add: bad_request_cors)

lemma destructure_incomplete: "destructure (body incomplete_request) = Inr incomplete"
  by (simp add: destructure_def nullish_def incomplete_request_def incomplete_def)

theorem missing_field_rejected_witness:
  "req_method incomplete_request = ''POST''
   \<and> destructure (body incomplete_request) = Inr incomplete
   \<and> truthy (name incomplete) \<and> \<not> truthy (phone incomplete) \<and> \<not> truthy (address incomplete)
   \<and> quote_js_handler offline incomplete_request =
         [Responded \<lparr>status = 400, headers = cors_map,
            sent = Json (Obj [(''error'', Str ''Name, phone, and address are required.'')])\<rparr>]
   \<and> part_000_handler offline incomplete_request =
         [Responded \<lparr>status = 400, headers = cors_map,
            sent = Json (Obj [(''error'', Str ''Name, phone, and address are required.'')])\<rparr>]
   \<and> debug_js_quote_handler offline incomplete_request =
         [Responded \<lparr>status = 400, headers = cors_map,
            sent = Json (Obj [(''error'', Str ''Name, phone, and address are required.'')])\<rparr>]"
proof -
  have m: "req_method incomplete_request = ''POST''"
    by (simp add: incomplete_request_def)
  have f: "truthy (name incomplete)" "\<not> truthy (phone incomplete)"
    "\<not> truthy (address incomplete)"
    by (simp_all add: incomplete_def)
  show ?thesis
    using missing_field_rejected [of incomplete_request incomplete offline,
        OF m destructure_incomplete]
    by (simp add: m f destructure_incomplete)
qed

text \<open>
  C2, as stated, does not hold: a POST whose name is the JSON object
  \<^verbatim>\<open>{"toString": 1}\<close> passes the validation, but \<^verbatim>\<open>sendSMS\<close> and \<^verbatim>\<open>sendEmail\<close>
  throw a \<^verbatim>\<open>TypeError\<close> when they interpolate the name, before their \<^verbatim>\<open>fetch\<close>:
  of the three collaborators only the record store is contacted.
\<close>

theorem unprintable_name_counterexample:
  "req_method odd_request = ''POST'' \<and> destructure (body odd_request) = Inr odd
   \<and> truthy (name odd) \<and> truthy (phone odd) \<and> truthy (address odd)
   \<and> quote_js_handler offline odd_request =
       [Called Airtable odd (airtable_request example_env (airtable_fields odd)),
        Settled Airtable (Inl (JsError ''TypeError'' ''fetch failed'')),
        Settled SMS (Inl cannot_convert),
        Settled Email (Inl cannot_convert),
        Responded
          \<lparr>status = 200, headers = cors_map, sent = Json (Obj [(''success'', Bool True)])\<rparr>]"
proof -
  have m: "req_method odd_request = ''POST''"
    by (simp add: odd_request_def)
  have d: "destructure (body odd_request) = Inr odd"
    by (simp add: destructure_def nullish_def odd_request_def odd_def)
  have t: "truthy (name odd)" "truthy (phone odd)" "truthy (address odd)"
    by (simp_all add: odd_def)
  have u: "\<not> list_all printable (interpolated odd)"
    by (simp add: interpolated_def odd_def)
  have a: "createAirtableRecord offline odd =
      (Some (airtable_request example_env (airtable_fields odd)),
       Inl (JsError ''TypeError'' ''fetch failed''))"
    by (simp add: createAirtableRecord_def Let_def json_or_throw_def offline_def)
  have l: "latency offline = (\<lambda>c. 0)"
    by (simp add: offline_def)
  show ?thesis
    by (simp add: m d t quote_js_handler_valid [OF m d t] not_called_unprintable [OF u] a
        called_def allSettled_def l)
qed

text \<open>
  C2, amended. For every valid request whose interpolated fields convert to text (as every
  text, number, boolean and \<^verbatim>\<open>null\<close> does), each handler contacts the record store,
  the SMS gateway and the e-mail gateway exactly once each, in this order, and the
  requests carry the submitted data: the field set built from the six fields, the text
  message made of the heading and one line per field present, and an e-mail whose subject
  names the submitter and whose HTML holds the text of every field present. In the handler
  of \<^verbatim>\<open>src/api/debug.js\<close> that writes the record first, this also needs the record
  identifier returned by the store to convert to text when it is truthy.
\<close>

theorem each_collaborator_called_once:
  assumes "req_method req = ''POST''" and "destructure (body req) = Inr d"
    and "truthy (name d)" and "truthy (phone d)" and "truthy (address d)"
    and "list_all printable (interpolated d)"
  shows
   "(let e = process_env w;
         airtable = (\<lambda>flds.
           \<lparr>url = ''https://api.airtable.com/v0/'' @ string_of (env e ''AIRTABLE_BASE_ID'')
              @ ''/'' @ string_of (env e ''AIRTABLE_TABLE_ID''),
            fetch_method = ''POST'',
            fetch_headers =
              [(''Authorization'', ''Bearer '' @ string_of (env e ''AIRTABLE_API_KEY'')),
               (''Content-Type'', ''application/json'')],
            fetch_body =
              JSON_stringify (Obj [(''records'', Arr [Obj [(''fields'', Obj flds)]])])\<rparr>);
         sms = (\<lambda>heading.
           \<lparr>url = ''https://textbelt.com/text'',
            fetch_method = ''POST'',
            fetch_headers = [(''Content-Type'', ''application/json'')],
            fetch_body = JSON_stringify (Obj
              [(''phone'', env e ''NOTIFY_PHONE''),
               (''message'', Str (join nl
                  (heading # (''Name: '' @ string_of (name d))
                   # (''Phone: '' @ string_of (phone d))
                   # (''Address: '' @ string_of (address d))
                   # optional_line ''Service: '' (service d)
                   @ optional_line ''Urgency: '' (urgency d)
                   @ optional_line ''Details: '' (details d)))),
               (''key'', env e ''TEXTBELT_API_KEY'')])\<rparr>);
         email = (\<lambda>title html.
           \<lparr>url = ''https://api.resend.com/emails'',
            fetch_method = ''POST'',
            fetch_headers =
              [(''Authorization'', ''Bearer '' @ string_of (env e ''RESEND_API_KEY'')),
               (''Content-Type'', ''application/json'')],
            fetch_body = JSON_stringify (Obj
              [(''from'', Str ''WeMow760 <notifications@wemow760.com>''),
               (''to'', Arr [env e ''NOTIFY_EMAIL'']),
               (''subject'', Str (title @ '' '' @ em_dash @ '' '' @ string_of (name d)
                  @ (if truthy (service d) then '' ('' @ string_of (service d) @ '')''
                     else []))),
               (''html'', Str html)])\<rparr>);
         quote_js_fields =
           [(''Name'', name d),
            (''Phone'', phone d),
            (''Address'', address d),
            (''Service'', js_or (service d) Undefined),
            (''Urgency'', js_or (urgency d) Undefined),
            (''Details'', js_or (details d) (Str [])),
            (''Status'', Str ''New'')];
         part_000_fields =
           [(''Name'', name d),
            (''Phone'', phone d),
            (''Address'', address d),
            (''Details'', js_or (details d) (Str [])),
            (''Status'', Str ''New'')]
           @ (if truthy (service d) then [(''Service'', service d)] else [])
           @ (if truthy (urgency d) then [(''Urgency'', urgency d)] else []);
         rid = record_id_after (json_or_throw ''Airtable'' (fetch w (airtable part_000_fields)))
     in (\<exists>html. email_html (timestamp w) d = Inr html
           \<and> list_all (\<lambda>v. sublist (string_of v) html) (interpolated d)
           \<and> filter is_call (quote_js_handler w req) =
               [Called Airtable d (airtable quote_js_fields),
                Called SMS d (sms sms_heading),
                Called Email d (email ''New Quote'' html)]
           \<and> filter is_call (part_000_handler w req) =
               [Called Airtable d (airtable part_000_fields),
                Called SMS d (sms sms_heading),
                Called Email d (email ''New Quote'' html)])
      \<and> ((if truthy rid then printable rid else True) \<longrightarrow>
           (\<exists>link html. airtable_link e rid = Inr link
              \<and> debug_js_email_html (timestamp w) link d = Inr html
              \<and> list_all (\<lambda>v. sublist (string_of v) html) (interpolated d)
              \<and> filter is_call (debug_js_quote_handler w req) =
                  [Called Airtable d (airtable part_000_fields),
                   Called SMS d (sms debug_js_sms_heading),
                   Called Email d (email ''New Quote Request'' html)])))"
proof -
  note valid = assms(1-5)
  note p = assms(6)
  define e where "e = process_env w"
  have flds: "part_000_airtable_fields d =
       [(''Name'', name d),
        (''Phone'', phone d),
        (''Address'', address d),
        (''Details'', js_or (details d) (Str [])),
        (''Status'', Str ''New'')]
       @ (if truthy (service d) then [(''Service'', service d)] else [])
       @ (if truthy (urgency d) then [(''Urgency'', urgency d)] else [])"
    by (simp add: part_000_airtable_fields_def Let_def)
  obtain html where html: "email_html (timestamp w) d = Inr html"
    using p by (simp add: email_html_def)
  have carries: "list_all (\<lambda>v. sublist (string_of v) html) (interpolated d)"
    using email_html_carries [OF html] by (simp add: list_all_iff)
  note sms = sms_message_printable [OF p headings_not_empty(1)]
  note sms2 = sms_message_printable [OF p headings_not_empty(2)]
  note subject = email_subject_printable [OF p]
  have q: "filter is_call (quote_js_handler w req) =
      [Called Airtable d (airtable_request e (airtable_fields d)),
       Called SMS d (sms_request e (join nl
         (sms_heading # (''Name: '' @ string_of (name d))
          # (''Phone: '' @ string_of (phone d)) # (''Address: '' @ string_of (address d))
          # optional_line ''Service: '' (service d) @ optional_line ''Urgency: '' (urgency d)
          @ optional_line ''Details: '' (details d)))),
       Called Email d (email_request e
         (''New Quote'' @ '' '' @ em_dash @ '' '' @ string_of (name d)
           @ (if truthy (service d) then '' ('' @ string_of (service d) @ '')'' else []))
         html)]"
    by (simp add: quote_js_handler_valid [OF valid] called_createAirtableRecord
        called_sendSMS [OF sms] called_sendEmail [OF html subject] e_def)
  have r: "filter is_call (part_000_handler w req) =
      [Called Airtable d (airtable_request e (part_000_airtable_fields d)),
       Called SMS d (sms_request e (join nl
         (sms_heading # (''Name: '' @ string_of (name d))
          # (''Phone: '' @ string_of (phone d)) # (''Address: '' @ string_of (address d))
          # optional_line ''Service: '' (service d) @ optional_line ''Urgency: '' (urgency d)
          @ optional_line ''Details: '' (details d)))),
       Called Email d (email_request e
         (''New Quote'' @ '' '' @ em_dash @ '' '' @ string_of (name d)
           @ (if truthy (service d) then '' ('' @ string_of (service d) @ '')'' else []))
         html)]"
    by (simp add: part_000_handler_valid [OF valid] called_createAirtableRecord
        called_sendSMS [OF sms] called_sendEmail [OF html subject] e_def)
  have first: "\<exists>html. email_html (timestamp w) d = Inr html
           \<and> list_all (\<lambda>v. sublist (string_of v) html) (interpolated d)
           \<and> filter is_call (quote_js_handler w req) =
               [Called Airtable d (airtable_request e (airtable_fields d)),
                Called SMS d (sms_request e (join nl
                  (sms_heading # (''Name: '' @ string_of (name d))
                   # (''Phone: '' @ string_of (phone d))
                   # (''Address: '' @ string_of (address d))
                   # optional_line ''Service: '' (service d)
                   @ optional_line ''Urgency: '' (urgency d)
                   @ optional_line ''Details: '' (details d)))),
                Called Email d (email_request e
                  (''New Quote'' @ '' '' @ em_dash @ '' '' @ string_of (name d)
                    @ (if truthy (service d) then '' ('' @ string_of (service d) @ '')''
                       else []))
                  html)]
           \<and> filter is_call (part_000_handler w req) =
               [Called Airtable d (airtable_request e (part_000_airtable_fields d)),
                Called SMS d (sms_request e (join nl
                  (sms_heading # (''Name: '' @ string_of (name d))
                   # (''Phone: '' @ string_of (phone d))
                   # (''Address: '' @ string_of (address d))
                   # optional_line ''Service: '' (service d)
                   @ optional_line ''Urgency: '' (urgency d)
                   @ optional_line ''Details: '' (details d)))),
                Called Email d (email_request e
                  (''New Quote'' @ '' '' @ em_dash @ '' '' @ string_of (name d)
                    @ (if truthy (service d) then '' ('' @ string_of (service d) @ '')''
                       else []))
                  html)]"
    using html carries q r by blast
  have second: "\<exists>link html. airtable_link e rid = Inr link
              \<and> debug_js_email_html (timestamp w) link d = Inr html
              \<and> list_all (\<lambda>v. sublist (string_of v) html) (interpolated d)
              \<and> filter is_call (debug_js_quote_handler w req) =
                  [Called Airtable d (airtable_request e (part_000_airtable_fields d)),
                   Called SMS d (sms_request e (join nl
                     (debug_js_sms_heading # (''Name: '' @ string_of (name d))
                      # (''Phone: '' @ string_of (phone d))
                      # (''Address: '' @ string_of (address d))
                      # optional_line ''Service: '' (service d)
                      @ optional_line ''Urgency: '' (urgency d)
                      @ optional_line ''Details: '' (details d)))),
                   Called Email d (email_request e
                     (''New Quote Request'' @ '' '' @ em_dash @ '' '' @ string_of (name d)
                       @ (if truthy (service d) then '' ('' @ string_of (service d) @ '')''
                          else []))
                     html)]"
    if rid: "rid = record_id_after (json_or_throw ''Airtable''
               (fetch w (airtable_request e (part_000_airtable_fields d))))"
      and ok: "if truthy rid then printable rid else True" for rid
  proof -
    obtain link where link: "airtable_link e rid = Inr link"
      using ok by (simp add: airtable_link_def to_string_def split: if_splits)
    obtain h where h: "debug_js_email_html (timestamp w) link d = Inr h"
      using p by (simp add: debug_js_email_html_def)
    have c: "list_all (\<lambda>v. sublist (string_of v) h) (interpolated d)"
      using debug_js_email_html_carries [OF h] by (simp add: list_all_iff)
    have rid': "record_id_after (snd (part_000_createAirtableRecord w d)) = rid"
      by (simp add: rid part_000_createAirtableRecord_def Let_def e_def)
    have "filter is_call (debug_js_quote_handler w req) =
        [Called Airtable d (airtable_request e (part_000_airtable_fields d)),
         Called SMS d (sms_request e (join nl
           (debug_js_sms_heading # (''Name: '' @ string_of (name d))
            # (''Phone: '' @ string_of (phone d))
            # (''Address: '' @ string_of (address d))
            # optional_line ''Service: '' (service d)
            @ optional_line ''Urgency: '' (urgency d)
            @ optional_line ''Details: '' (details d)))),
         Called Email d (email_request e
           (''New Quote Request'' @ '' '' @ em_dash @ '' '' @ string_of (name d)
             @ (if truthy (service d) then '' ('' @ string_of (service d) @ '')''
                else []))
           h)]"
      using link h
      by (simp add: debug_js_quote_handler_valid [OF valid] called_createAirtableRecord
          called_debug_js_sendSMS [OF sms2] rid'
          called_debug_js_sendEmail [OF _ _ subject] e_def)
    then show ?thesis
      using link h c by blast
  qed
  show ?thesis
    unfolding Let_def
    using first second
    by (simp add: e_def airtable_request_def airtable_url_def sms_request_def
        email_request_def airtable_fields_def flds)
qed

text \<open>The example submission in the world \<open>all_well\<close>, where the record store returns
  the record identifier \<^verbatim>\<open>rec1\<close>: the requests in full.\<close>

theorem each_collaborator_called_once_witness:
  "req_method jane_request = ''POST'' \<and> destructure (body jane_request) = Inr jane
   \<and> truthy (name jane) \<and> truthy (phone jane) \<and> truthy (address jane)
   \<and> list_all printable (interpolated jane)
   \<and> record_id_after (snd (part_000_createAirtableRecord all_well jane)) = Str ''rec1''
   \<and> (let airtable = (\<lambda>flds.
           \<lparr>url = ''https://api.airtable.com/v0/appBase0000000001/Jobs'',
            fetch_method = ''POST'',
            fetch_headers =
              [(''Authorization'', ''Bearer patAbCdEf0123456789''),
               (''Content-Type'', ''application/json'')],
            fetch_body = Obj [(''records'', Arr [Obj [(''fields'', Obj flds)]])]\<rparr>);
         sms = (\<lambda>heading.
           \<lparr>url = ''https://textbelt.com/text'',
            fetch_method = ''POST'',
            fetch_headers = [(''Content-Type'', ''application/json'')],
            fetch_body = Obj
              [(''phone'', Str ''7605550199''),
               (''message'', Str (heading @ nl @ ''Name: Jane Doe'' @ nl
                  @ ''Phone: 760-555-0100'' @ nl @ ''Address: 123 Oak St'' @ nl
                  @ ''Service: Mowing'' @ nl @ ''Details: Gate code 4521'')),
               (''key'', Str ''textbelt'')]\<rparr>);
         email = (\<lambda>title html.
           \<lparr>url = ''https://api.resend.com/emails'',
            fetch_method = ''POST'',
            fetch_headers =
              [(''Authorization'', ''Bearer re_0123456789''),
               (''Content-Type'', ''application/json'')],
            fetch_body = Obj
              [(''from'', Str ''WeMow760 <notifications@wemow760.com>''),
               (''to'', Arr [Str ''owner@wemow760.com'']),
               (''subject'', Str (title @ '' '' @ em_dash @ '' Jane Doe (Mowing)'')),
               (''html'', Str html)]\<rparr>)
       in filter is_call (quote_js_handler all_well jane_request) =
            [Called Airtable jane
               (airtable
                  [(''Name'', Str ''Jane Doe''),
                   (''Phone'', Str ''760-555-0100''),
                   (''Address'', Str ''123 Oak St''),
                   (''Service'', Str ''Mowing''),
                   (''Details'', Str ''Gate code 4521''),
                   (''Status'', Str ''New'')]),
             Called SMS jane (sms (herb @ '' New WeMow760 Quote'')),
             Called Email jane
               (email ''New Quote''
                  (html_head @ ''Nov 2, 2026, 2:06 PM''
                   @ html_name_row @ ''Jane Doe''
                   @ html_phone_row @ ''760-555-0100'' @ html_phone_mid @ ''760-555-0100''
                   @ html_address_row @ ''123 Oak St''
                   @ html_address_end @ html_service_row_1 @ ''Mowing'' @ html_service_row_2
                   @ html_gap @ html_gap
                   @ html_details_row_1 @ ''Gate code 4521'' @ html_details_row_2
                   @ html_tail))]
          \<and> filter is_call (debug_js_quote_handler all_well jane_request) =
            [Called Airtable jane
               (airtable
                  [(''Name'', Str ''Jane Doe''),
                   (''Phone'', Str ''760-555-0100''),
                   (''Address'', Str ''123 Oak St''),
                   (''Details'', Str ''Gate code 4521''),
                   (''Status'', Str ''New''),
                   (''Service'', Str ''Mowing'')]),
             Called SMS jane (sms (herb @ '' New WeMow760 Quote Request'')),
             Called Email jane
               (email ''New Quote Request''
                  (html_head @ ''Nov 2, 2026, 2:06 PM''
                   @ html_name_row @ ''Jane Doe''
                   @ html_phone_row @ ''760-555-0100'' @ html_phone_mid @ ''760-555-0100''
                   @ html_address_row @ ''123 Oak St''
                   @ html_address_end @ html_service_row_1 @ ''Mowing'' @ html_service_row_2
                   @ html_gap @ html_gap
                   @ html_link_details_row_1 @ ''Gate code 4521'' @ html_details_row_2
                   @ html_link_button @ ''https://airtable.com/appBase0000000001/Jobs/rec1''
                   @ html_link_tail))])"
proof -
  note valid = jane_valid(1) destructure_jane jane_valid(2) jane_valid(3) jane_valid(4)
  have w: "process_env all_well = example_env" "timestamp all_well = ''Nov 2, 2026, 2:06 PM''"
    by (simp_all add: all_well_def airtable_down_def)
  have e: "env example_env ''AIRTABLE_BASE_ID'' = Str ''appBase0000000001''"
    "env example_env ''AIRTABLE_TABLE_ID'' = Str ''Jobs''"
    "env example_env ''AIRTABLE_API_KEY'' = Str ''patAbCdEf0123456789''"
    "env example_env ''NOTIFY_PHONE'' = Str ''7605550199''"
    "env example_env ''TEXTBELT_API_KEY'' = Str ''textbelt''"
    "env example_env ''NOTIFY_EMAIL'' = Str ''owner@wemow760.com''"
    "env example_env ''RESEND_API_KEY'' = Str ''re_0123456789''"
    by (simp_all add: env_def example_env_def)
  have d: "name jane = Str ''Jane Doe''" "phone jane = Str ''760-555-0100''"
    "address jane = Str ''123 Oak St''" "service jane = Str ''Mowing''"
    "urgency jane = Undefined" "details jane = Str ''Gate code 4521''"
    by (simp_all add: jane_def)
  have answer: "json_or_throw ''Airtable'' (fetch all_well rq) =
      Inr (Obj [(''records'', Arr [Obj [(''id'', Str ''rec1'')]])])"
    if "url rq = ''https://api.airtable.com/v0/appBase0000000001/Jobs''" for rq
    using that by (simp add: all_well_def airtable_url_def e json_or_throw_def)
  have rid: "record_id_after (Inr (Obj [(''records'', Arr [Obj [(''id'', Str ''rec1'')]])])) =
      Str ''rec1''"
    by (simp add: record_id_after_def record_id_def nullish_def js_or_def)
  have rid': "record_id_after (snd (part_000_createAirtableRecord all_well jane)) = Str ''rec1''"
    by (simp add: part_000_createAirtableRecord_def Let_def w airtable_request_def
        airtable_url_def e answer rid)
  have h: "email_html ''Nov 2, 2026, 2:06 PM'' jane =
      Inr (html_head @ ''Nov 2, 2026, 2:06 PM''
           @ html_name_row @ ''Jane Doe''
           @ html_phone_row @ ''760-555-0100'' @ html_phone_mid @ ''760-555-0100''
           @ html_address_row @ ''123 Oak St''
           @ html_address_end @ html_service_row_1 @ ''Mowing'' @ html_service_row_2
           @ html_gap @ html_gap
           @ html_details_row_1 @ ''Gate code 4521'' @ html_details_row_2
           @ html_tail)"
    by (simp add: email_html_def jane_printable d)
  have l: "airtable_link example_env (Str ''rec1'') =
      Inr ''https://airtable.com/appBase0000000001/Jobs/rec1''"
    by (simp add: airtable_link_def to_string_def e)
  have h': "debug_js_email_html ''Nov 2, 2026, 2:06 PM''
        ''https://airtable.com/appBase0000000001/Jobs/rec1'' jane =
      Inr (html_head @ ''Nov 2, 2026, 2:06 PM''
           @ html_name_row @ ''Jane Doe''
           @ html_phone_row @ ''760-555-0100'' @ html_phone_mid @ ''760-555-0100''
           @ html_address_row @ ''123 Oak St''
           @ html_address_end @ html_service_row_1 @ ''Mowing'' @ html_service_row_2
           @ html_gap @ html_gap
           @ html_link_details_row_1 @ ''Gate code 4521'' @ html_details_row_2
           @ html_link_button @ ''https://airtable.com/appBase0000000001/Jobs/rec1''
           @ html_link_tail)"
    by (simp add: debug_js_email_html_def jane_printable d)
  have o: "optional_line ''Service: '' (Str ''Mowing'') = [''Service: Mowing'']"
    "optional_line ''Urgency: '' Undefined = []"
    "optional_line ''Details: '' (Str ''Gate code 4521'') = [''Details: Gate code 4521'']"
    by (simp_all add: optional_line_def)
  show ?thesis
    using each_collaborator_called_once [of jane_request jane all_well, OF valid jane_printable]
    by (simp add: Let_def valid jane_printable rid' w e d answer rid h l h' o js_or_def
        sms_heading_def debug_js_sms_heading_def)
qed



text \<open>
  C4. Under the silent-success policy (the handler of \<^verbatim>\<open>src/api/quote.js\<close>, and the
  one of \<^verbatim>\<open>src/api/debug.js\<close> that writes the record first), every valid request
  is answered once, with status 200 and the body \<^verbatim>\<open>{success: true}\<close>, whatever the
  world does with the three calls: in particular when all three fail.
\<close>

theorem silent_success:
  assumes "req_method req = ''POST''" and "destructure (body req) = Inr d"
    and "truthy (name d)" and "truthy (phone d)" and "truthy (address d)"
  shows "responses (quote_js_handler w req) =
           [\<lparr>status = 200, headers = cors_map, sent = Json (Obj [(''success'', Bool True)])\<rparr>]
       \<and> responses (debug_js_quote_handler w req) =
           [\<lparr>status = 200, headers = cors_map, sent = Json (Obj [(''success'', Bool True)])\<rparr>]"
  using assms
  by (simp add: quote_js_handler_valid debug_js_quote_handler_valid)

lemma offline_all_fail:
  "isl (snd (createAirtableRecord offline d))" "isl (snd (sendSMS offline d))"
  "isl (snd (sendEmail offline d))" "isl (snd (part_000_createAirtableRecord offline d))"
  "isl (snd (debug_js_sendSMS offline d))" "isl (snd (debug_js_sendEmail offline d rid))"
  by (simp_all add: createAirtableRecord_def sendSMS_def sendEmail_def
      part_000_createAirtableRecord_def debug_js_sendSMS_def debug_js_sendEmail_def
      json_or_throw_def sms_result_def offline_def Let_def split: sum.splits)

theorem silent_success_witness:
  "req_method jane_request = ''POST'' \<and> destructure (body jane_request) = Inr jane
   \<and> truthy (name jane) \<and> truthy (phone jane) \<and> truthy (address jane)
   \<and> isl (snd (createAirtableRecord offline jane)) \<and> isl (snd (sendSMS offline jane))
   \<and> isl (snd (sendEmail offline jane))
   \<and> responses (quote_js_handler offline jane_request) =
        [\<lparr>status = 200, headers = cors_map, sent = Json (Obj [(''success'', Bool True)])\<rparr>]
   \<and> responses (debug_js_quote_handler offline jane_request) =
        [\<lparr>status = 200, headers = cors_map, sent = Json (Obj [(''success'', Bool True)])\<rparr>]"
  using silent_success [of jane_request jane offline]
  by (simp add: destructure_jane jane_valid offline_all_fail)

text \<open>
  C5. Under the diagnostic-echo policy (the handler of \<^verbatim>\<open>src/unnamed/part_000\<close>), for
  every valid request whose record-store call is rejected with some reason while the SMS
  and e-mail calls are fulfilled, the response has status 200 and the body
  \<^verbatim>\<open>{success: true, _debug: {airtable: "FAIL: <reason>", sms: "OK", email: "OK"}}\<close>.
\<close>

theorem diagnostic_echo_airtable_fail:
  assumes "req_method req = ''POST''" and "destructure (body req) = Inr d"
    and "truthy (name d)" and "truthy (phone d)" and "truthy (address d)"
    and "snd (part_000_createAirtableRecord w d) = Inl reason"
    and "snd (sendSMS w d) = Inr sms_value"
    and "snd (sendEmail w d) = Inr email_value"
  shows "responses (part_000_handler w req) =
     [\<lparr>status = 200, headers = cors_map,
       sent = Json (Obj
         [(''success'', Bool True),
          (''_debug'', Obj
            [(''airtable'', Str (''FAIL: '' @ error_to_string reason)),
             (''sms'', Str ''OK''),
             (''email'', Str ''OK'')])])\<rparr>]"
  using assms
  by (simp add: part_000_handler_valid summary_entry_def)

theorem diagnostic_echo_airtable_fail_witness:
  "req_method jane_request = ''POST'' \<and> destructure (body jane_request) = Inr jane
   \<and> truthy (name jane) \<and> truthy (phone jane) \<and> truthy (address jane)
   \<and> snd (part_000_createAirtableRecord airtable_down jane) =
        Inl (Error ''Airtable 422: INVALID_VALUE_FOR_COLUMN'')
   \<and> snd (sendSMS airtable_down jane) =
        Inr (Obj [(''success'', Bool True), (''quotaRemaining'', Num ''40'')])
   \<and> snd (sendEmail airtable_down jane) = Inr (Obj [(''id'', Str ''49a3999c'')])
   \<and> responses (part_000_handler airtable_down jane_request) =
       [\<lparr>status = 200, headers = cors_map,
         sent = Json (Obj
           [(''success'', Bool True),
            (''_debug'', Obj
              [(''airtable'', Str ''FAIL: Error: Airtable 422: INVALID_VALUE_FOR_COLUMN''),
               (''sms'', Str ''OK''),
               (''email'', Str ''OK'')])])\<rparr>]"
proof -
  have t: "''FAIL: '' @ error_to_string (Error ''Airtable 422: INVALID_VALUE_FOR_COLUMN'') =
      ''FAIL: Error: Airtable 422: INVALID_VALUE_FOR_COLUMN''"
    by (simp add: error_to_string_def Error_def)
  show ?thesis
    using diagnostic_echo_airtable_fail [of jane_request jane airtable_down,
        OF jane_valid(1) destructure_jane jane_valid(2) jane_valid(3) jane_valid(4)
        airtable_down_jane(2) airtable_down_jane(3) airtable_down_jane(5)]
    by (simp only: airtable_down_jane t destructure_jane jane_valid simp_thms)
qed

text \<open>
  C6 describes the handling of the request method that \<^verbatim>\<open>src/unnamed/part_000\<close> and
  the quote handler of \<^verbatim>\<open>src/api/debug.js\<close> implement: they answer an OPTIONS
  request with status 200, the three CORS headers and no body, and any other method but
  POST with status 405. The handler of \<^verbatim>\<open>src/api/quote.js\<close> lacks the preflight
  branch: it answers an OPTIONS request with status 405 and
  \<^verbatim>\<open>{error: "Method not allowed"}\<close>, before it has set any CORS header.
\<close>

theorem preflight_not_answered:
  "req_method options_request = ''OPTIONS''
   \<and> quote_js_handler offline options_request =
       [Responded \<lparr>status = 405, headers = Map.empty,
          sent = Json (Obj [(''error'', Str ''Method not allowed'')])\<rparr>]
   \<and> part_000_handler offline options_request =
       [Responded \<lparr>status = 200, headers = cors_map, sent = NoBody\<rparr>]
   \<and> debug_js_quote_handler offline options_request =
       [Responded \<lparr>status = 200, headers = cors_map, sent = NoBody\<rparr>]
   \<and> cors_map ''Access-Control-Allow-Origin'' = Some ''*''
   \<and> cors_map ''Access-Control-Allow-Methods'' = Some ''POST''
   \<and> cors_map ''Access-Control-Allow-Headers'' = Some ''Content-Type''"
  by (simp add: quote_js_handler_def part_000_handler_def debug_js_quote_handler_def
      options_request_def method_not_allowed_eq preflight_eq cors_map_def)

text \<open>The preflight is not a POST: \<^verbatim>\<open>src/api/quote.js\<close> rejects it in its first
  statement, without calling a collaborator and without a CORS header.\<close>

theorem preflight_not_answered_witness:
  "req_method options_request \<noteq> ''POST''
   \<and> targets (quote_js_handler offline options_request) = []
   \<and> map status (responses (quote_js_handler offline options_request)) = [405]
   \<and> map (\<lambda>r. headers r ''Access-Control-Allow-Origin'')
         (responses (quote_js_handler offline options_request)) = [None]
   \<and> map status (responses (part_000_handler offline options_request)) = [200]
   \<and> map (\<lambda>r. headers r ''Access-Control-Allow-Origin'')
         (responses (part_000_handler offline options_request)) = [Some ''*'']
   \<and> map status (responses (debug_js_quote_handler offline options_request)) = [200]"
  using preflight_not_answered by (simp add: options_request_def cors_map_def)

text \<open>
  C7, as stated, does not hold for the text message: a valid submission without urgency
  whose name holds a line break followed by \<^verbatim>\<open>Urgency: NOW\<close> is rendered into a
  text message with the line \<^verbatim>\<open>Urgency: NOW\<close>, since the fields are interpolated as
  they are.
\<close>

theorem line_break_counterexample:
  "req_method eve_request = ''POST'' \<and> destructure (body eve_request) = Inr eve
   \<and> truthy (name eve) \<and> truthy (phone eve) \<and> truthy (address eve)
   \<and> urgency eve = Undefined
   \<and> Called SMS eve (sms_request example_env eve_message)
       \<in> set (quote_js_handler offline eve_request)
   \<and> property (fetch_body (sms_request example_env eve_message)) ''message'' = Str eve_message
   \<and> lines_of eve_message =
       [herb @ '' New WeMow760 Quote'', ''Name: Eve'', ''Urgency: NOW'',
        ''Phone: 760-555-0100'', ''Address: 123 Oak St'']
   \<and> filter (labelled ''Urgency: '') (lines_of eve_message) = [''Urgency: NOW'']"
proof -
  have m: "req_method eve_request = ''POST''"
    by (simp add: eve_request_def)
  have d: "destructure (body eve_request) = Inr eve"
    by (simp add: destructure_def nullish_def eve_request_def eve_def)
  have t: "truthy (name eve)" "truthy (phone eve)" "truthy (address eve)"
    "urgency eve = Undefined"
    by (simp_all add: eve_def nl_def)
  have p: "list_all printable (interpolated eve)"
    by (simp add: interpolated_def eve_def)
  have s: "sms_message sms_heading eve = Inr eve_message"
    by (simp add: sms_message_printable [OF p headings_not_empty(1)])
      (simp add: eve_def optional_line_def sms_heading_def eve_message_def)
  have c: "Called SMS eve (sms_request example_env eve_message)
       \<in> set (quote_js_handler offline eve_request)"
    by (simp add: quote_js_handler_valid [OF m d t(1-3)] called_sendSMS [OF s] offline_def)
  have b: "property (fetch_body (sms_request example_env eve_message)) ''message'' =
      Str eve_message"
    by (simp add: sms_request_def env_def example_env_def)
  have l: "lines_of eve_message =
       [herb @ '' New WeMow760 Quote'', ''Name: Eve'', ''Urgency: NOW'',
        ''Phone: 760-555-0100'', ''Address: 123 Oak St'']"
    by (simp add: eve_message_def herb_def nl_def)
  have f: "filter (labelled ''Urgency: '')
       [herb @ '' New WeMow760 Quote'', ''Name: Eve'', ''Urgency: NOW'',
        ''Phone: 760-555-0100'', ''Address: 123 Oak St''] = [''Urgency: NOW'']"
    by (simp add: labelled_def herb_def)
  show ?thesis
    using m d t c b f by (simp add: l)
qed

text \<open>
  C7, amended. The field set that \<^verbatim>\<open>createAirtableRecord\<close> sends to the record
  store, in either variant, has no key \<^verbatim>\<open>Service\<close> when the service is absent (or
  otherwise falsy) and no key \<^verbatim>\<open>Urgency\<close> when the urgency is, while the fixed
  \<^verbatim>\<open>Status\<close> is there. When the fields that are present can be rendered and hold no
  line break, the text message that \<^verbatim>\<open>sendSMS\<close> sends, in either heading variant,
  consists of the heading, the lines of name, phone and address, and one line for each
  optional field that is present: it has no line with the label of an absent one.
\<close>

theorem absent_optional_fields_omitted:
  "(\<exists>rq rq'.
      fst (createAirtableRecord w d) = Some rq
      \<and> fst (part_000_createAirtableRecord w d) = Some rq'
      \<and> (\<not> truthy (service d) \<longrightarrow>
           ''Service'' \<notin> set (keys (record_fields rq))
           \<and> ''Service'' \<notin> set (keys (record_fields rq')))
      \<and> (\<not> truthy (urgency d) \<longrightarrow>
           ''Urgency'' \<notin> set (keys (record_fields rq))
           \<and> ''Urgency'' \<notin> set (keys (record_fields rq')))
      \<and> property (record_fields rq) ''Status'' = Str ''New''
      \<and> property (record_fields rq') ''Status'' = Str ''New'')
   \<and> (list_all printable (interpolated d) \<and> list_all one_line (interpolated d) \<longrightarrow>
       (\<exists>rq rq' m m'.
          fst (sendSMS w d) = Some rq \<and> property (fetch_body rq) ''message'' = Str m
          \<and> fst (debug_js_sendSMS w d) = Some rq'
          \<and> property (fetch_body rq') ''message'' = Str m'
          \<and> lines_of m =
              (herb @ '' New WeMow760 Quote'') # (''Name: '' @ string_of (name d))
              # (''Phone: '' @ string_of (phone d)) # (''Address: '' @ string_of (address d))
              # optional_line ''Service: '' (service d)
              @ optional_line ''Urgency: '' (urgency d)
              @ optional_line ''Details: '' (details d)
          \<and> lines_of m' =
              (herb @ '' New WeMow760 Quote Request'') # (''Name: '' @ string_of (name d))
              # (''Phone: '' @ string_of (phone d)) # (''Address: '' @ string_of (address d))
              # optional_line ''Service: '' (service d)
              @ optional_line ''Urgency: '' (urgency d)
              @ optional_line ''Details: '' (details d)
          \<and> (\<not> truthy (service d) \<longrightarrow>
               filter (labelled ''Service: '') (lines_of m) = []
               \<and> filter (labelled ''Service: '') (lines_of m') = [])
          \<and> (\<not> truthy (urgency d) \<longrightarrow>
               filter (labelled ''Urgency: '') (lines_of m) = []
               \<and> filter (labelled ''Urgency: '') (lines_of m') = [])
          \<and> (\<not> truthy (details d) \<longrightarrow>
               filter (labelled ''Details: '') (lines_of m) = []
               \<and> filter (labelled ''Details: '') (lines_of m') = [])))"
proof -
  have f1: "fst (createAirtableRecord w d) =
      Some (airtable_request (process_env w) (airtable_fields d))"
    by (simp add: createAirtableRecord_def Let_def)
  have f2: "fst (part_000_createAirtableRecord w d) =
      Some (airtable_request (process_env w) (part_000_airtable_fields d))"
    by (simp add: part_000_createAirtableRecord_def Let_def)
  have s1: "property (JSON_stringify (Obj (airtable_fields d))) ''Status'' = Str ''New''"
    using property_stringify [OF status_field(1)] by simp
  have s2: "property (JSON_stringify (Obj (part_000_airtable_fields d))) ''Status'' = Str ''New''"
    using property_stringify [OF status_field(2)] by simp
  have store: "\<exists>rq rq'.
      fst (createAirtableRecord w d) = Some rq
      \<and> fst (part_000_createAirtableRecord w d) = Some rq'
      \<and> (\<not> truthy (service d) \<longrightarrow>
           ''Service'' \<notin> set (keys (record_fields rq))
           \<and> ''Service'' \<notin> set (keys (record_fields rq')))
      \<and> (\<not> truthy (urgency d) \<longrightarrow>
           ''Urgency'' \<notin> set (keys (record_fields rq))
           \<and> ''Urgency'' \<notin> set (keys (record_fields rq')))
      \<and> property (record_fields rq) ''Status'' = Str ''New''
      \<and> property (record_fields rq') ''Status'' = Str ''New''"
    unfolding f1 f2
    using s1 s2 optional_keys_left_out [of d]
    by (simp add: record_fields_airtable_request)
  have message: "\<exists>rq rq' m m'.
          fst (sendSMS w d) = Some rq \<and> property (fetch_body rq) ''message'' = Str m
          \<and> fst (debug_js_sendSMS w d) = Some rq'
          \<and> property (fetch_body rq') ''message'' = Str m'
          \<and> lines_of m =
              (herb @ '' New WeMow760 Quote'') # (''Name: '' @ string_of (name d))
              # (''Phone: '' @ string_of (phone d)) # (''Address: '' @ string_of (address d))
              # optional_line ''Service: '' (service d)
              @ optional_line ''Urgency: '' (urgency d)
              @ optional_line ''Details: '' (details d)
          \<and> lines_of m' =
              (herb @ '' New WeMow760 Quote Request'') # (''Name: '' @ string_of (name d))
              # (''Phone: '' @ string_of (phone d)) # (''Address: '' @ string_of (address d))
              # optional_line ''Service: '' (service d)
              @ optional_line ''Urgency: '' (urgency d)
              @ optional_line ''Details: '' (details d)
          \<and> (\<not> truthy (service d) \<longrightarrow>
               filter (labelled ''Service: '') (lines_of m) = []
               \<and> filter (labelled ''Service: '') (lines_of m') = [])
          \<and> (\<not> truthy (urgency d) \<longrightarrow>
               filter (labelled ''Urgency: '') (lines_of m) = []
               \<and> filter (labelled ''Urgency: '') (lines_of m') = [])
          \<and> (\<not> truthy (details d) \<longrightarrow>
               filter (labelled ''Details: '') (lines_of m) = []
               \<and> filter (labelled ''Details: '') (lines_of m') = [])"
    if p: "list_all printable (interpolated d)" and o: "list_all one_line (interpolated d)"
  proof -
    define rest where "rest = (''Name: '' @ string_of (name d))
      # (''Phone: '' @ string_of (phone d)) # (''Address: '' @ string_of (address d))
      # optional_line ''Service: '' (service d) @ optional_line ''Urgency: '' (urgency d)
      @ optional_line ''Details: '' (details d)"
    have single: "\<forall>x \<in> set (heading # rest). CHR 0x0A \<notin> set x"
      if "CHR 0x0A \<notin> set heading" for heading
      using o that
      by (auto simp add: interpolated_one_line rest_def optional_line_def one_line_def
          split: if_splits)
    have h: "CHR 0x0A \<notin> set sms_heading" "CHR 0x0A \<notin> set debug_js_sms_heading"
      by (simp_all add: sms_heading_def debug_js_sms_heading_def herb_def)
    have l1: "lines_of (join nl (sms_heading # rest)) = sms_heading # rest"
      by (rule lines_of_join [OF _ single [OF h(1)]]) simp
    have l2: "lines_of (join nl (debug_js_sms_heading # rest)) = debug_js_sms_heading # rest"
      by (rule lines_of_join [OF _ single [OF h(2)]]) simp
    have m1: "sms_message sms_heading d = Inr (join nl (sms_heading # rest))"
      unfolding rest_def by (rule sms_message_printable [OF p headings_not_empty(1)])
    have m2: "sms_message debug_js_sms_heading d = Inr (join nl (debug_js_sms_heading # rest))"
      unfolding rest_def by (rule sms_message_printable [OF p headings_not_empty(2)])
    have r1: "fst (sendSMS w d) =
        Some (sms_request (process_env w) (join nl (sms_heading # rest)))"
      by (simp add: sendSMS_def m1 Let_def)
    have r2: "fst (debug_js_sendSMS w d) =
        Some (sms_request (process_env w) (join nl (debug_js_sms_heading # rest)))"
      by (simp add: debug_js_sendSMS_def m2 Let_def)
    have b: "property (fetch_body (sms_request (process_env w) t)) ''message'' = Str t" for t
      by (simp add: sms_request_def env_def split: option.splits)
    have no_service: "filter (labelled ''Service: '') rest = []" if "\<not> truthy (service d)"
      using that by (simp add: rest_def optional_line_def labelled_def)
    have no_urgency: "filter (labelled ''Urgency: '') rest = []" if "\<not> truthy (urgency d)"
      using that by (simp add: rest_def optional_line_def labelled_def)
    have no_details: "filter (labelled ''Details: '') rest = []" if "\<not> truthy (details d)"
      using that by (simp add: rest_def optional_line_def labelled_def)
    have hl: "\<not> labelled ''Service: '' (herb @ t)" "\<not> labelled ''Urgency: '' (herb @ t)"
      "\<not> labelled ''Details: '' (herb @ t)" for t
      by (simp_all add: labelled_def herb_def)
    have "fst (sendSMS w d) = Some (sms_request (process_env w) (join nl (sms_heading # rest)))
      \<and> property (fetch_body (sms_request (process_env w) (join nl (sms_heading # rest))))
          ''message'' = Str (join nl (sms_heading # rest))
      \<and> fst (debug_js_sendSMS w d) =
          Some (sms_request (process_env w) (join nl (debug_js_sms_heading # rest)))
      \<and> property (fetch_body (sms_request (process_env w)
          (join nl (debug_js_sms_heading # rest)))) ''message'' =
          Str (join nl (debug_js_sms_heading # rest))
      \<and> lines_of (join nl (sms_heading # rest)) = (herb @ '' New WeMow760 Quote'') # rest
      \<and> lines_of (join nl (debug_js_sms_heading # rest)) =
          (herb @ '' New WeMow760 Quote Request'') # rest
      \<and> (\<not> truthy (service d) \<longrightarrow>
           filter (labelled ''Service: '') (lines_of (join nl (sms_heading # rest))) = []
           \<and> filter (labelled ''Service: '')
               (lines_of (join nl (debug_js_sms_heading # rest))) = [])
      \<and> (\<not> truthy (urgency d) \<longrightarrow>
           filter (labelled ''Urgency: '') (lines_of (join nl (sms_heading # rest))) = []
           \<and> filter (labelled ''Urgency: '')
               (lines_of (join nl (debug_js_sms_heading # rest))) = [])
      \<and> (\<not> truthy (details d) \<longrightarrow>
           filter (labelled ''Details: '') (lines_of (join nl (sms_heading # rest))) = []
           \<and> filter (labelled ''Details: '')
               (lines_of (join nl (debug_js_sms_heading # rest))) = [])"
      unfolding l1 l2
      using r1 r2 b no_service no_urgency no_details hl
      by (simp add: sms_heading_def debug_js_sms_heading_def)
    then show ?thesis
      unfolding rest_def by blast
  qed
  show ?thesis
    using store message by blast
qed

text \<open>The submission \<open>bare\<close> has none of the optional fields.\<close>

theorem absent_optional_fields_omitted_witness:
  "\<not> truthy (service bare) \<and> \<not> truthy (urgency bare) \<and> \<not> truthy (details bare)
   \<and> list_all printable (interpolated bare) \<and> list_all one_line (interpolated bare)
   \<and> fst (sendSMS offline bare) =
       Some (sms_request example_env
         (herb @ '' New WeMow760 Quote'' @ nl @ ''Name: Jane Doe'' @ nl
          @ ''Phone: 760-555-0100'' @ nl @ ''Address: 123 Oak St''))
   \<and> lines_of (herb @ '' New WeMow760 Quote'' @ nl @ ''Name: Jane Doe'' @ nl
          @ ''Phone: 760-555-0100'' @ nl @ ''Address: 123 Oak St'') =
       [herb @ '' New WeMow760 Quote'', ''Name: Jane Doe'', ''Phone: 760-555-0100'',
        ''Address: 123 Oak St'']
   \<and> fst (createAirtableRecord offline bare) =
       Some (airtable_request example_env (airtable_fields bare))
   \<and> fst (part_000_createAirtableRecord offline bare) =
       Some (airtable_request example_env (part_000_airtable_fields bare))
   \<and> ''Service'' \<notin> set (keys (record_fields (airtable_request example_env (airtable_fields bare))))
   \<and> ''Urgency'' \<notin> set (keys (record_fields (airtable_request example_env (airtable_fields bare))))
   \<and> ''Service'' \<notin> set (keys (record_fields
         (airtable_request example_env (part_000_airtable_fields bare))))
   \<and> ''Urgency'' \<notin> set (keys (record_fields
         (airtable_request example_env (part_000_airtable_fields bare))))
   \<and> keys (record_fields (airtable_request example_env (airtable_fields bare))) =
       [''Name'', ''Phone'', ''Address'', ''Details'', ''Status'']"
proof -
  have b: "\<not> truthy (service bare)" "\<not> truthy (urgency bare)" "\<not> truthy (details bare)"
    by (simp_all add: bare_def)
  have p: "list_all printable (interpolated bare)" "list_all one_line (interpolated bare)"
    by (simp_all add: interpolated_def bare_def one_line_def)
  have e: "process_env offline = example_env"
    by (simp add: offline_def)
  have m: "sms_message sms_heading bare =
      Inr (herb @ '' New WeMow760 Quote'' @ nl @ ''Name: Jane Doe'' @ nl
          @ ''Phone: 760-555-0100'' @ nl @ ''Address: 123 Oak St'')"
    by (simp add: sms_message_printable [OF p(1) headings_not_empty(1)])
      (simp add: bare_def optional_line_def sms_heading_def)
  have s: "fst (sendSMS offline bare) =
       Some (sms_request example_env
         (herb @ '' New WeMow760 Quote'' @ nl @ ''Name: Jane Doe'' @ nl
          @ ''Phone: 760-555-0100'' @ nl @ ''Address: 123 Oak St''))"
    by (simp add: sendSMS_def m Let_def e)
  have l: "lines_of (herb @ '' New WeMow760 Quote'' @ nl @ ''Name: Jane Doe'' @ nl
          @ ''Phone: 760-555-0100'' @ nl @ ''Address: 123 Oak St'') =
       [herb @ '' New WeMow760 Quote'', ''Name: Jane Doe'', ''Phone: 760-555-0100'',
        ''Address: 123 Oak St'']"
    by (simp add: herb_def nl_def)
  have f: "fst (createAirtableRecord offline bare) =
       Some (airtable_request example_env (airtable_fields bare))"
    "fst (part_000_createAirtableRecord offline bare) =
       Some (airtable_request example_env (part_000_airtable_fields bare))"
    by (simp_all add: createAirtableRecord_def part_000_createAirtableRecord_def Let_def e)
  have k: "keys (record_fields (airtable_request example_env (airtable_fields bare))) =
      [''Name'', ''Phone'', ''Address'', ''Details'', ''Status'']"
    by (simp add: record_fields_airtable_request keys_stringify airtable_fields_def js_or_def
        bare_def)
  show ?thesis
    using absent_optional_fields_omitted [of offline bare] b p s l f k by auto
qed

text \<open>
  C8. The example submission, in any world: the handler of \<^verbatim>\<open>src/api/quote.js\<close> calls
  the three collaborators with it, sending the requests spelt out below; the field set
  sent to the record store has \<^verbatim>\<open>Name: "Jane Doe"\<close> and \<^verbatim>\<open>Status: "New"\<close> (and no
  \<^verbatim>\<open>Urgency\<close>); the text message consists of the heading and the lines for name,
  phone, address, service and details, with no line for the urgency; and the one
  response is 200 \<^verbatim>\<open>{success: true}\<close>.
\<close>

theorem jane_example:
  "(let message =
          herb @ '' New WeMow760 Quote'' @ nl @ ''Name: Jane Doe'' @ nl
          @ ''Phone: 760-555-0100'' @ nl @ ''Address: 123 Oak St'' @ nl @ ''Service: Mowing''
          @ nl @ ''Details: Gate code 4521'';
        subject = ''New Quote '' @ em_dash @ '' Jane Doe (Mowing)'';
        html =
          html_head @ timestamp w
          @ html_name_row @ ''Jane Doe''
          @ html_phone_row @ ''760-555-0100'' @ html_phone_mid @ ''760-555-0100''
          @ html_address_row @ ''123 Oak St''
          @ html_address_end @ html_service_row_1 @ ''Mowing'' @ html_service_row_2
          @ html_gap @ html_gap
          @ html_details_row_1 @ ''Gate code 4521'' @ html_details_row_2
          @ html_tail
    in filter is_call (quote_js_handler w jane_request) =
         [Called Airtable jane (airtable_request (process_env w) (airtable_fields jane)),
          Called SMS jane (sms_request (process_env w) message),
          Called Email jane (email_request (process_env w) subject html)]
       \<and> record_fields (airtable_request (process_env w) (airtable_fields jane)) =
           Obj [(''Name'', Str ''Jane Doe''),
                (''Phone'', Str ''760-555-0100''),
                (''Address'', Str ''123 Oak St''),
                (''Service'', Str ''Mowing''),
                (''Details'', Str ''Gate code 4521''),
                (''Status'', Str ''New'')]
       \<and> property (fetch_body (sms_request (process_env w) message)) ''message'' = Str message
       \<and> lines_of message =
           [herb @ '' New WeMow760 Quote'',
            ''Name: Jane Doe'',
            ''Phone: 760-555-0100'',
            ''Address: 123 Oak St'',
            ''Service: Mowing'',
            ''Details: Gate code 4521'']
       \<and> filter (\<lambda>l. take 7 l = ''Urgency'') (lines_of message) = []
       \<and> responses (quote_js_handler w jane_request) =
           [\<lparr>status = 200, headers = cors_map, sent = Json (Obj [(''success'', Bool True)])\<rparr>])"
proof -
  note run = quote_js_handler_valid [OF jane_valid(1) destructure_jane jane_valid(2)
      jane_valid(3) jane_valid(4), of w]
  have a: "called Airtable jane (createAirtableRecord w jane) =
      [Called Airtable jane (airtable_request (process_env w) (airtable_fields jane))]"
    by (simp add: called_def createAirtableRecord_def Let_def)
  have m: "sms_message sms_heading jane =
      Inr (herb @ '' New WeMow760 Quote'' @ nl @ ''Name: Jane Doe'' @ nl
          @ ''Phone: 760-555-0100'' @ nl @ ''Address: 123 Oak St'' @ nl @ ''Service: Mowing''
          @ nl @ ''Details: Gate code 4521'')"
    by (simp add: sms_message_def jane_printable array_join_def sms_lines_def sms_heading_def)
      (simp add: jane_def)
  have s: "called SMS jane (sendSMS w jane) =
      [Called SMS jane (sms_request (process_env w)
         (herb @ '' New WeMow760 Quote'' @ nl @ ''Name: Jane Doe'' @ nl
          @ ''Phone: 760-555-0100'' @ nl @ ''Address: 123 Oak St'' @ nl @ ''Service: Mowing''
          @ nl @ ''Details: Gate code 4521''))]"
    by (simp add: called_def sendSMS_def m Let_def)
  have h: "email_html (timestamp w) jane =
      Inr (html_head @ timestamp w
          @ html_name_row @ ''Jane Doe''
          @ html_phone_row @ ''760-555-0100'' @ html_phone_mid @ ''760-555-0100''
          @ html_address_row @ ''123 Oak St''
          @ html_address_end @ html_service_row_1 @ ''Mowing'' @ html_service_row_2
          @ html_gap @ html_gap
          @ html_details_row_1 @ ''Gate code 4521'' @ html_details_row_2
          @ html_tail)"
    by (simp add: email_html_def jane_printable) (simp add: jane_def)
  have j: "email_subject ''New Quote'' jane = Inr (''New Quote '' @ em_dash @ '' Jane Doe (Mowing)'')"
    by (simp add: email_subject_def jane_def)
  have e: "called Email jane (sendEmail w jane) =
      [Called Email jane (email_request (process_env w)
         (''New Quote '' @ em_dash @ '' Jane Doe (Mowing)'')
         (html_head @ timestamp w
          @ html_name_row @ ''Jane Doe''
          @ html_phone_row @ ''760-555-0100'' @ html_phone_mid @ ''760-555-0100''
          @ html_address_row @ ''123 Oak St''
          @ html_address_end @ html_service_row_1 @ ''Mowing'' @ html_service_row_2
          @ html_gap @ html_gap
          @ html_details_row_1 @ ''Gate code 4521'' @ html_details_row_2
          @ html_tail))]"
    by (simp add: called_def sendEmail_def h j Let_def)
  have flds: "record_fields (airtable_request (process_env w) (airtable_fields jane)) =
       Obj [(''Name'', Str ''Jane Doe''),
            (''Phone'', Str ''760-555-0100''),
            (''Address'', Str ''123 Oak St''),
            (''Service'', Str ''Mowing''),
            (''Details'', Str ''Gate code 4521''),
            (''Status'', Str ''New'')]"
    by (simp add: record_fields_airtable_request airtable_fields_def js_or_def jane_def)
  have msg: "property (fetch_body (sms_request (process_env w) t)) ''message'' = Str t" for t
    by (simp add: sms_request_def env_def split: option.splits)
  have lines: "lines_of (herb @ '' New WeMow760 Quote'' @ nl @ ''Name: Jane Doe'' @ nl
          @ ''Phone: 760-555-0100'' @ nl @ ''Address: 123 Oak St'' @ nl @ ''Service: Mowing''
          @ nl @ ''Details: Gate code 4521'') =
       [herb @ '' New WeMow760 Quote'',
        ''Name: Jane Doe'',
        ''Phone: 760-555-0100'',
        ''Address: 123 Oak St'',
        ''Service: Mowing'',
        ''Details: Gate code 4521'']"
    by (simp add: herb_def nl_def)
  have no_urgency:
    "filter (\<lambda>l. take 7 l = ''Urgency'')
       [herb @ '' New WeMow760 Quote'', ''Name: Jane Doe'', ''Phone: 760-555-0100'',
        ''Address: 123 Oak St'', ''Service: Mowing'', ''Details: Gate code 4521''] = []"
    by (simp add: herb_def)
  have calls: "filter is_call (quote_js_handler w jane_request) =
      called Airtable jane (createAirtableRecord w jane) @ called SMS jane (sendSMS w jane)
      @ called Email jane (sendEmail w jane)"
    unfolding run by simp
  have resp: "responses (quote_js_handler w jane_request) =
      [\<lparr>status = 200, headers = cors_map, sent = Json (Obj [(''success'', Bool True)])\<rparr>]"
    unfolding run by simp
  show ?thesis
    unfolding Let_def calls resp a s e lines
    using flds msg no_urgency by simp
qed

text \<open>The example passes the validation of the handler; in the world \<open>airtable_down\<close>
  the statement reads as follows.\<close>

theorem jane_example_witness:
  "req_method jane_request = ''POST'' \<and> destructure (body jane_request) = Inr jane
   \<and> truthy (name jane) \<and> truthy (phone jane) \<and> truthy (address jane)
   \<and> (let message =
            herb @ '' New WeMow760 Quote'' @ nl @ ''Name: Jane Doe'' @ nl
            @ ''Phone: 760-555-0100'' @ nl @ ''Address: 123 Oak St'' @ nl
            @ ''Service: Mowing'' @ nl @ ''Details: Gate code 4521'';
          subject = ''New Quote '' @ em_dash @ '' Jane Doe (Mowing)'';
          html =
            html_head @ ''Nov 2, 2026, 2:06 PM''
            @ html_name_row @ ''Jane Doe''
            @ html_phone_row @ ''760-555-0100'' @ html_phone_mid @ ''760-555-0100''
            @ html_address_row @ ''123 Oak St''
            @ html_address_end @ html_service_row_1 @ ''Mowing'' @ html_service_row_2
            @ html_gap @ html_gap
            @ html_details_row_1 @ ''Gate code 4521'' @ html_details_row_2
            @ html_tail
      in filter is_call (quote_js_handler airtable_down jane_request) =
           [Called Airtable jane (airtable_request example_env (airtable_fields jane)),
            Called SMS jane (sms_request example_env message),
            Called Email jane (email_request example_env subject html)]
         \<and> targets (quote_js_handler airtable_down jane_request) = [Airtable, SMS, Email]
         \<and> property (record_fields (airtable_request example_env (airtable_fields jane)))
             ''Name'' = Str ''Jane Doe''
         \<and> property (record_fields (airtable_request example_env (airtable_fields jane)))
             ''Status'' = Str ''New''
         \<and> ''Urgency'' \<notin> set (keys (record_fields
               (airtable_request example_env (airtable_fields jane))))
         \<and> property (fetch_body (sms_request example_env message)) ''message'' = Str message
         \<and> lines_of message =
             [herb @ '' New WeMow760 Quote'',
              ''Name: Jane Doe'',
              ''Phone: 760-555-0100'',
              ''Address: 123 Oak St'',
              ''Service: Mowing'',
              ''Details: Gate code 4521'']
         \<and> responses (quote_js_handler airtable_down jane_request) =
             [\<lparr>status = 200, headers = cors_map,
               sent = Json (Obj [(''success'', Bool True)])\<rparr>])"
proof -
  have e: "process_env airtable_down = example_env"
    "timestamp airtable_down = ''Nov 2, 2026, 2:06 PM''"
    by (simp_all add: airtable_down_def)
  have t: "targets (quote_js_handler airtable_down jane_request) =
      targets (filter is_call (quote_js_handler airtable_down jane_request))"
    by (simp add: quote_js_handler_valid [OF jane_valid(1) destructure_jane jane_valid(2)
          jane_valid(3) jane_valid(4)] targets_called split: option.splits)
  show ?thesis
    using jane_example [of airtable_down]
    by (simp add: Let_def t e destructure_jane jane_valid)
qed

text \<open>
  C9 asks that the configuration report never shows a full value. It does at a short one:
  in the example configuration the table identifier is the four-character
  \<^verbatim>\<open>Jobs\<close>, and the report of the first handler of \<^verbatim>\<open>src/api/debug.js\<close> prints
  it whole, since \<^verbatim>\<open>val.slice(0, 4)\<close> is the value itself. The longer values are cut
  after four characters.
\<close>

theorem debug_report_short_value:
  "process_env offline ''AIRTABLE_TABLE_ID'' = Some ''Jobs''
   \<and> debug_js_handler offline get_request =
     [Responded \<lparr>status = 200, headers = Map.empty,
      sent = Json (Obj
        [(''AIRTABLE_API_KEY'', Str (''SET (19 chars, starts with '' @ dq @ ''patA...'' @ dq @ '')'')),
         (''AIRTABLE_BASE_ID'', Str (''SET (17 chars, starts with '' @ dq @ ''appB...'' @ dq @ '')'')),
         (''AIRTABLE_TABLE_ID'', Str (''SET (4 chars, starts with '' @ dq @ ''Jobs...'' @ dq @ '')'')),
         (''TEXTBELT_API_KEY'', Str (''SET (8 chars, starts with '' @ dq @ ''text...'' @ dq @ '')'')),
         (''NOTIFY_PHONE'', Str (''SET (10 chars, starts with '' @ dq @ ''7605...'' @ dq @ '')'')),
         (''NOTIFY_EMAIL'', Str (''SET (18 chars, starts with '' @ dq @ ''owne...'' @ dq @ '')'')),
         (''RESEND_API_KEY'', Str (''SET (13 chars, starts with '' @ dq @ ''re_0...'' @ dq @ '')''))])\<rparr>]"
  by (simp add: debug_js_handler_def vars_def var_status_def offline_def example_env_def
      res0_def res_json_def res_status_def show_nat.simps digit_char_def dq_def
      utf16_length_def units_def continuation_def)

text \<open>
  C10. Two POST requests whose bodies are objects that agree on the six keys
  \<^verbatim>\<open>name\<close>, \<^verbatim>\<open>phone\<close>, \<^verbatim>\<open>address\<close>, \<^verbatim>\<open>service\<close>, \<^verbatim>\<open>urgency\<close> and
  \<^verbatim>\<open>details\<close> lead, in the same world, to the same run of each quote handler: the same
  calls with the same outbound requests, the same settlements and the same response,
  whatever else the bodies hold.
\<close>

theorem extra_keys_ignored:
  assumes "req_method r1 = ''POST''" and "req_method r2 = ''POST''"
    and "body r1 = Obj kvs1" and "body r2 = Obj kvs2"
    and "list_all (\<lambda>k. map_of kvs1 k = map_of kvs2 k)
           [''name'', ''phone'', ''address'', ''service'', ''urgency'', ''details'']"
  shows "quote_js_handler w r1 = quote_js_handler w r2
       \<and> part_000_handler w r1 = part_000_handler w r2
       \<and> debug_js_quote_handler w r1 = debug_js_quote_handler w r2"
proof -
  have same_data: "destructure (body r1) = destructure (body r2)"
    using assms by (simp add: destructure_def nullish_def)
  have same_method: "req_method r1 = req_method r2"
    using assms by simp
  show ?thesis
    using handlers_read [OF same_method same_data] by blast
qed

theorem extra_keys_ignored_witness:
  "req_method jane_request = ''POST'' \<and> req_method jane_request_extra = ''POST''
   \<and> body jane_request \<noteq> body jane_request_extra
   \<and> property (body jane_request) ''admin'' = Undefined
   \<and> property (body jane_request_extra) ''admin'' = Bool True
   \<and> quote_js_handler airtable_down jane_request =
       quote_js_handler airtable_down jane_request_extra
   \<and> part_000_handler airtable_down jane_request =
       part_000_handler airtable_down jane_request_extra
   \<and> debug_js_quote_handler airtable_down jane_request =
       debug_js_quote_handler airtable_down jane_request_extra"
proof -
  have m: "req_method jane_request = ''POST''" "req_method jane_request_extra = ''POST''"
    by (simp_all add: jane_request_def jane_request_extra_def)
  have b: "body jane_request =
      Obj [(''name'', Str ''Jane Doe''), (''phone'', Str ''760-555-0100''),
           (''address'', Str ''123 Oak St''), (''service'', Str ''Mowing''),
           (''details'', Str ''Gate code 4521'')]"
    "body jane_request_extra =
      Obj [(''name'', Str ''Jane Doe''), (''phone'', Str ''760-555-0100''),
           (''address'', Str ''123 Oak St''), (''service'', Str ''Mowing''),
           (''details'', Str ''Gate code 4521''), (''company'', Str ''ACME''),
           (''admin'', Bool True)]"
    by (simp_all add: jane_request_def jane_request_extra_def)
  have d: "body jane_request \<noteq> body jane_request_extra"
    "property (body jane_request) ''admin'' = Undefined"
    "property (body jane_request_extra) ''admin'' = Bool True"
    by (simp_all add: b)
  show ?thesis
    using extra_keys_ignored [of jane_request jane_request_extra _ _ airtable_down,
        OF m b] d m
    by simp
qed

end
